theory Spec2Isabelle
  imports Main "HOL-Library.Sublist" "HOL-Library.Word"
begin

section \<open>Python values\<close>

text \<open>
  A Python \<^verbatim>\<open>str\<close> is a sequence of Unicode code points, so a character is a
  natural number and a string a list of them. \<open>ustr\<close> writes an ASCII literal.
\<close>

type_synonym pychar = nat
type_synonym pystr = "pychar list"

definition ustr :: "string \<Rightarrow> pystr" where
  "ustr s = map of_char s"

text \<open>
  \<^verbatim>\<open>s.replace(old, new)\<close>: every non-overlapping occurrence, leftmost first.
  With an empty \<open>old\<close> Python puts \<open>new\<close> before every character and at the end.
\<close>

fun py_replace :: "pystr \<Rightarrow> pystr \<Rightarrow> pystr \<Rightarrow> pystr" where
  "py_replace old new [] = (if old = [] then new else [])"
| "py_replace old new (c # cs) =
     (if old = [] then new @ c # py_replace old new cs
      else if prefix old (c # cs)
        then new @ py_replace old new (drop (length old) (c # cs))
      else c # py_replace old new cs)"

text \<open>\<^verbatim>\<open>sub in s\<close> for strings: \<open>sub\<close> occurs somewhere in \<open>s\<close>.\<close>

fun py_in :: "pystr \<Rightarrow> pystr \<Rightarrow> bool" where
  "py_in sub [] = (sub = [])"
| "py_in sub (c # cs) = (prefix sub (c # cs) \<or> py_in sub cs)"

text \<open>\<^verbatim>\<open>sep.join(xs)\<close> for a list of strings.\<close>

fun py_join :: "pystr \<Rightarrow> pystr list \<Rightarrow> pystr" where
  "py_join sep [] = []"
| "py_join sep [x] = x"
| "py_join sep (x # y # ys) = x @ sep @ py_join sep (y # ys)"

text \<open>
  The values \<^verbatim>\<open>json.load\<close> and \<^verbatim>\<open>request.get_json\<close> produce. \<open>JNull\<close> is
  \<^verbatim>\<open>None\<close>; a \<open>JObj\<close> is a \<^verbatim>\<open>dict\<close> in insertion order, whose first binding
  of a key is the one looked up. Numbers are integers: floating-point numbers are
  outside the model.
\<close>

datatype json =
    JNull
  | JBool bool
  | JInt int
  | JStr pystr
  | JArr "json list"
  | JObj "(pystr \<times> json) list"

text \<open>
  The exceptions of the program. \<open>KeyError\<close> carries the missing key: for a tag
  outside the vocabulary it is the specification's \<^verbatim>\<open>UnknownTagError\<close>.
  \<open>ArgumentError\<close> is the \<^verbatim>\<open>TypeError\<close> of a call that lacks a required argument,
  \<open>DecodeError\<close> stands for the errors of the parsers on a file of another kind,
  \<open>OpenError\<close> for what \<^verbatim>\<open>open\<close> raises on a name that cannot be a file of the folder.
\<close>

datatype py_error =
    KeyError json
  | TypeError
  | AttributeError
  | ValueError
  | UnboundLocalError
  | DecodeError
  | ArgumentError
  | OpenError
  | FileNotFoundError pystr
  | SinkError

datatype 'a result = Returns 'a | Raises py_error

text \<open>\<^verbatim>\<open>for i in v\<close>: a list gives its items, a dict its keys, a string its
  characters; nothing else is iterable.\<close>

fun py_iter :: "json \<Rightarrow> py_error + json list" where
  "py_iter (JArr xs) = Inr xs"
| "py_iter (JObj kvs) = Inr (map (\<lambda>kv. JStr (fst kv)) kvs)"
| "py_iter (JStr s) = Inr (map (\<lambda>c. JStr [c]) s)"
| "py_iter v = Inl TypeError"

text \<open>\<^verbatim>\<open>v[k]\<close> with a string key: only a dict can be subscripted by a string.\<close>

fun py_getitem :: "json \<Rightarrow> pystr \<Rightarrow> py_error + json" where
  "py_getitem (JObj kvs) k =
     (case map_of kvs k of None \<Rightarrow> Inl (KeyError (JStr k)) | Some v \<Rightarrow> Inr v)"
| "py_getitem v k = Inl TypeError"

text \<open>\<^verbatim>\<open>v.get(k)\<close>: a method of dicts only; a missing key gives \<^verbatim>\<open>None\<close>.\<close>

fun py_get :: "json \<Rightarrow> pystr \<Rightarrow> py_error + json" where
  "py_get (JObj kvs) k = (case map_of kvs k of None \<Rightarrow> Inr JNull | Some v \<Rightarrow> Inr v)"
| "py_get v k = Inl AttributeError"

text \<open>
  \<^verbatim>\<open>list(set(xs))\<close> for strings keeps one copy of each string. The order in which
  a set of strings is iterated depends on the string hashes of the running
  process. It is a parameter: \<open>rank xs\<close> ranks the strings of the set built from
  \<open>xs\<close>, and the set is iterated by rank.
\<close>

type_synonym set_order = "pystr list \<Rightarrow> pystr \<Rightarrow> nat"

definition py_list_set :: "set_order \<Rightarrow> pystr list \<Rightarrow> pystr list" where
  "py_list_set rank xs = sort_key (rank xs) (remdups xs)"

section \<open>The file store\<close>

text \<open>
  A stored file is the value it holds: a JSON document, or a table with its column
  names and its rows, in the delimited (csv) or the spreadsheet (xlsx) container.
  The text that pandas writes and parses is not modelled. A folder maps file names
  to files.
\<close>

datatype stored_file =
    JsonFile json
  | CsvFile "pystr list" "json list list"
  | XlsxFile "pystr list" "json list list"

type_synonym folder = "pystr \<rightharpoonup> stored_file"

text \<open>A pandas \<^verbatim>\<open>DataFrame\<close>: named columns, in order.\<close>

type_synonym frame = "(pystr \<times> json list) list"

definition frame_rows :: "frame \<Rightarrow> json list list" where
  "frame_rows df =
     (case df of [] \<Rightarrow> []
      | kc # _ \<Rightarrow> map (\<lambda>i. map (\<lambda>kc. snd kc ! i) df) [0..<length (snd kc)])"

text \<open>\<^verbatim>\<open>pd.DataFrame(dict_of_lists)\<close> refuses columns of different lengths.\<close>

definition DataFrame :: "frame \<Rightarrow> py_error + frame" where
  "DataFrame d =
     (if list_all (\<lambda>kc. length (snd kc) = length (snd (hd d))) d then Inr d
      else Inl ValueError)"

definition to_csv :: "frame \<Rightarrow> stored_file" where
  "to_csv df = CsvFile (map fst df) (frame_rows df)"

definition json_load :: "stored_file \<Rightarrow> py_error + json" where
  "json_load f = (case f of JsonFile v \<Rightarrow> Inr v | _ \<Rightarrow> Inl DecodeError)"

section \<open>The annotation aggregator: \<^verbatim>\<open>json_to_csv\<close>\<close>

definition df_data :: frame where
  "df_data =
     [(ustr ''id'', []), (ustr ''text'', []), (ustr ''company'', []),
      (ustr ''positive'', []), (ustr ''negative'', []), (ustr ''notr'', [])]"

definition translate_json :: "(pystr \<times> pystr) list" where
  "translate_json =
     [(ustr ''FIRMA'', ustr ''company''), (ustr ''POZITIF'', ustr ''positive''),
      (ustr ''NEGATIF'', ustr ''negative''), (ustr ''NOTR'', ustr ''notr'')]"

definition temp_data :: frame where
  "temp_data =
     [(ustr ''company'', []), (ustr ''positive'', []),
      (ustr ''negative'', []), (ustr ''notr'', [])]"

text \<open>\<^verbatim>\<open>d[k].append(v)\<close> on a dict of lists whose keys include \<open>k\<close>.\<close>

definition append_to :: "frame \<Rightarrow> pystr \<Rightarrow> json \<Rightarrow> frame" where
  "append_to d k v = map (\<lambda>kc. if fst kc = k then (fst kc, snd kc @ [v]) else kc) d"

text \<open>
  \<^verbatim>\<open>translate_json[t]\<close>: a list or a dict is not hashable, any other value that is
  not one of the four tags is a missing key.
\<close>

fun translate_lookup :: "json \<Rightarrow> py_error + pystr" where
  "translate_lookup (JStr t) =
     (case map_of translate_json t of None \<Rightarrow> Inl (KeyError (JStr t)) | Some c \<Rightarrow> Inr c)"
| "translate_lookup (JArr xs) = Inl TypeError"
| "translate_lookup (JObj kvs) = Inl TypeError"
| "translate_lookup v = Inl (KeyError v)"

text \<open>The body of the \<^verbatim>\<open>try\<close> block, for one annotation \<open>x\<close>.\<close>

definition annotate :: "frame \<Rightarrow> json \<Rightarrow> py_error + frame" where
  "annotate temp x =
     (case py_getitem x (ustr ''tag'') of Inl e \<Rightarrow> Inl e
      | Inr t \<Rightarrow>
     (case translate_lookup t of Inl e \<Rightarrow> Inl e
      | Inr eng_version \<Rightarrow>
     (case py_getitem x (ustr ''text'') of Inl e \<Rightarrow> Inl e
      | Inr v \<Rightarrow> Inr (append_to temp eng_version v))))"

text \<open>
  \<^verbatim>\<open>for x in annotations\<close>: every exception of the body is caught and returned
  (\<open>Inl\<close>), which ends the whole function.
\<close>

fun annotations_loop :: "frame \<Rightarrow> json list \<Rightarrow> py_error + frame" where
  "annotations_loop temp [] = Inr temp"
| "annotations_loop temp (x # xs) =
     (case annotate temp x of Inl err \<Rightarrow> Inl err
      | Inr temp' \<Rightarrow> annotations_loop temp' xs)"

fun strs_of :: "json list \<Rightarrow> pystr list option" where
  "strs_of [] = Some []"
| "strs_of (JStr s # vs) = (case strs_of vs of None \<Rightarrow> None | Some ss \<Rightarrow> Some (s # ss))"
| "strs_of (v # vs) = None"

text \<open>
  The value of one category: empty string for an empty list, otherwise the texts
  without duplicates joined by \<open>|\<close>. A text that is not a string makes either
  \<^verbatim>\<open>set\<close> (not hashable) or \<^verbatim>\<open>join\<close> (not a string) raise \<^verbatim>\<open>TypeError\<close>.
\<close>

definition new_value :: "set_order \<Rightarrow> json list \<Rightarrow> py_error + pystr" where
  "new_value rank vs =
     (if vs = [] then Inr []
      else case strs_of vs of None \<Rightarrow> Inl TypeError
           | Some ss \<Rightarrow> Inr (py_join (ustr ''|'') (py_list_set rank ss)))"

text \<open>\<^verbatim>\<open>for b in temp_data\<close>: one value appended to each category column.\<close>

fun categories_loop :: "set_order \<Rightarrow> frame \<Rightarrow> frame \<Rightarrow> py_error + frame" where
  "categories_loop rank df [] = Inr df"
| "categories_loop rank df (bc # rest) =
     (case new_value rank (snd bc) of Inl e \<Rightarrow> Inl e
      | Inr v \<Rightarrow> categories_loop rank (append_to df (fst bc) (JStr v)) rest)"

text \<open>
  How the body of a loop ends: it goes on to the next item, the function returns
  an error value, or an exception leaves the function.
\<close>

datatype 'a flow = Next 'a | Return py_error | Raise py_error

text \<open>The body of \<^verbatim>\<open>for i in data\<close>, for one event \<open>i\<close>.\<close>

definition event_body :: "set_order \<Rightarrow> frame \<Rightarrow> json \<Rightarrow> frame flow" where
  "event_body rank df i =
     (case py_getitem i (ustr ''page'') of Inl e \<Rightarrow> Raise e
      | Inr p \<Rightarrow>
     (case py_getitem i (ustr ''text'') of Inl e \<Rightarrow> Raise e
      | Inr t \<Rightarrow>
     (case py_getitem i (ustr ''annotations'') of Inl e \<Rightarrow> Raise e
      | Inr annotations \<Rightarrow>
     (case py_iter annotations of Inl e \<Rightarrow> Raise e
      | Inr xs \<Rightarrow>
     (case annotations_loop temp_data xs of Inl err \<Rightarrow> Return err
      | Inr temp \<Rightarrow>
     (case categories_loop rank
             (append_to (append_to df (ustr ''id'') p) (ustr ''text'') t) temp of
        Inl e \<Rightarrow> Raise e
      | Inr df' \<Rightarrow> Next df'))))))"

fun events_loop :: "set_order \<Rightarrow> frame \<Rightarrow> json list \<Rightarrow> frame flow" where
  "events_loop rank df [] = Next df"
| "events_loop rank df (i # rest) =
     (case event_body rank df i of
        Next df' \<Rightarrow> events_loop rank df' rest
      | Return err \<Rightarrow> Return err
      | Raise e \<Rightarrow> Raise e)"

text \<open>
  \<^verbatim>\<open>json_to_csv(filename)\<close> on the folder of cleaned data. It returns \<^verbatim>\<open>None\<close>
  after writing the table, returns the error an annotation caused, or raises.
  The table is written once, after the loop.
\<close>

definition json_to_csv ::
  "set_order \<Rightarrow> folder \<Rightarrow> pystr \<Rightarrow> py_error option result \<times> folder" where
  "json_to_csv rank fs filename =
     (case fs filename of None \<Rightarrow> (Raises (FileNotFoundError filename), fs)
      | Some f \<Rightarrow>
     (case json_load f of Inl e \<Rightarrow> (Raises e, fs)
      | Inr data \<Rightarrow>
     (case py_iter data of Inl e \<Rightarrow> (Raises e, fs)
      | Inr items \<Rightarrow>
     (case events_loop rank df_data items of
        Raise e \<Rightarrow> (Raises e, fs)
      | Return err \<Rightarrow> (Returns (Some err), fs)
      | Next d \<Rightarrow>
     (case DataFrame d of Inl e \<Rightarrow> (Raises e, fs)
      | Inr df \<Rightarrow>
          (Returns None,
           fs(py_replace (ustr ''json'') (ustr ''csv'') filename \<mapsto> to_csv df)))))))"

text \<open>An annotation submission as the specification types it, and its JSON form.\<close>

record annotation =
  tag :: pystr
  ann_text :: pystr

record event =
  page :: int
  ev_text :: pystr
  annotations :: "annotation list"

definition annotation_json :: "annotation \<Rightarrow> json" where
  "annotation_json a = JObj [(ustr ''tag'', JStr (tag a)), (ustr ''text'', JStr (ann_text a))]"

definition event_json :: "event \<Rightarrow> json" where
  "event_json e =
     JObj [(ustr ''page'', JInt (page e)), (ustr ''text'', JStr (ev_text e)),
           (ustr ''annotations'', JArr (map annotation_json (annotations e)))]"

definition submission_json :: "event list \<Rightarrow> json" where
  "submission_json es = JArr (map event_json es)"

subsection \<open>The aggregated row as the specification describes it\<close>

text \<open>
  The texts of the annotations whose tag resolves to category \<open>c\<close>, in the order
  of the annotation list.
\<close>

definition texts_of :: "pystr \<Rightarrow> annotation list \<Rightarrow> pystr list" where
  "texts_of c as = map ann_text (filter (\<lambda>a. map_of translate_json (tag a) = Some c) as)"

text \<open>The two dicts of lists of \<^verbatim>\<open>json_to_csv\<close>, by their columns.\<close>

definition frame4 :: "json list \<Rightarrow> json list \<Rightarrow> json list \<Rightarrow> json list \<Rightarrow> frame" where
  "frame4 cs ps ns os = [(ustr ''company'', cs), (ustr ''positive'', ps), (ustr ''negative'', ns), (ustr ''notr'', os)]"

text \<open>All tags of an event are in the vocabulary; the tags of a submission that are not.\<close>

definition known_tags :: "event \<Rightarrow> bool" where
  "known_tags e = list_all (\<lambda>a. map_of translate_json (tag a) \<noteq> None) (annotations e)"

definition unknown_tags :: "event list \<Rightarrow> pystr list" where
  "unknown_tags es =
     filter (\<lambda>t. t \<notin> set (map fst translate_json))
       (concat (map (\<lambda>e. map tag (annotations e)) es))"

definition frame6 ::
  "json list \<Rightarrow> json list \<Rightarrow> json list \<Rightarrow> json list \<Rightarrow> json list \<Rightarrow> json list \<Rightarrow> frame" where
  "frame6 is ts cs ps ns os =
     [(ustr ''id'', is), (ustr ''text'', ts), (ustr ''company'', cs),
      (ustr ''positive'', ps), (ustr ''negative'', ns), (ustr ''notr'', os)]"

text \<open>
  A category field of the specification: the empty string, or the texts of the
  category without duplicates, joined by \<open>|\<close>.
\<close>

definition category_field :: "set_order \<Rightarrow> pystr \<Rightarrow> event \<Rightarrow> pystr" where
  "category_field rank c e =
     (let ts = texts_of c (annotations e)
      in if ts = [] then [] else py_join (ustr ''|'') (py_list_set rank ts))"

definition aggregate_spec :: "set_order \<Rightarrow> event \<Rightarrow> json list" where
  "aggregate_spec rank e =
     [JInt (page e), JStr (ev_text e),
      JStr (category_field rank (ustr ''company'') e),
      JStr (category_field rank (ustr ''positive'') e),
      JStr (category_field rank (ustr ''negative'') e),
      JStr (category_field rank (ustr ''notr'') e)]"

definition export_columns :: "pystr list" where
  "export_columns =
     [ustr ''id'', ustr ''text'', ustr ''company'', ustr ''positive'', ustr ''negative'',
      ustr ''notr'']"

text \<open>Sample submissions.\<close>

definition good_event :: event where
  "good_event = \<lparr>page = 1, ev_text = ustr ''iyi urun'',
     annotations = [\<lparr>tag = ustr ''POZITIF'', ann_text = ustr ''iyi''\<rparr>]\<rparr>"

definition bad_event :: event where
  "bad_event = \<lparr>page = 2, ev_text = ustr ''x y'',
     annotations = [\<lparr>tag = ustr ''NOTR'', ann_text = ustr ''y''\<rparr>,
                    \<lparr>tag = ustr ''UNKNOWN'', ann_text = ustr ''x''\<rparr>]\<rparr>"

definition same_page_events :: "event list" where
  "same_page_events =
     [\<lparr>page = 7, ev_text = ustr ''a b'',
        annotations = [\<lparr>tag = ustr ''FIRMA'', ann_text = ustr ''a''\<rparr>]\<rparr>,
      \<lparr>page = 7, ev_text = ustr ''a b'',
        annotations = [\<lparr>tag = ustr ''NEGATIF'', ann_text = ustr ''bb''\<rparr>,
                       \<lparr>tag = ustr ''NEGATIF'', ann_text = ustr ''a''\<rparr>]\<rparr>]"

section \<open>The export endpoint: \<^verbatim>\<open>export_json\<close>\<close>

text \<open>
  The state the handlers work on: the upload folder, the folder of cleaned data
  (where the exports go as well) and the external store of submissions, of which
  nothing is known but its insertion \<open>insert_one\<close>, a parameter that may fail.
\<close>

record 'db state =
  uploads :: folder
  cleaned :: folder
  db :: 'db

datatype response = IsErr pystr py_error | Redirect pystr

text \<open>\<^verbatim>\<open>save_to_db\<close> returns the exception of the insertion instead of raising it.\<close>

definition save_to_db ::
  "('db \<Rightarrow> json \<Rightarrow> py_error + 'db) \<Rightarrow> 'db \<Rightarrow> json \<Rightarrow> py_error option \<times> 'db" where
  "save_to_db insert_one d request =
     (case insert_one d request of Inl err \<Rightarrow> (Some err, d) | Inr d' \<Rightarrow> (None, d'))"

text \<open>
  The names under which \<^verbatim>\<open>open(folder + '/' + name, 'w')\<close> creates a file in a
  folder without subfolders: not empty, not \<open>.\<close> or \<open>..\<close>, without \<open>/\<close> and
  without the character 0, without surrogate code points (they have no UTF-8
  form) and of at most 255 bytes in UTF-8. For every other name \<^verbatim>\<open>open\<close> raises
  and nothing is written.
\<close>

definition utf8_length :: "pystr \<Rightarrow> nat" where
  "utf8_length n =
     sum_list (map (\<lambda>c. if c < 128 then 1 else if c < 2048 then 2 else if c < 65536 then 3 else 4) n)"

definition file_name :: "pystr \<Rightarrow> bool" where
  "file_name n =
     (n \<noteq> [] \<and> n \<noteq> ustr ''.'' \<and> n \<noteq> ustr ''..'' \<and> 47 \<notin> set n \<and> 0 \<notin> set n \<and>
      list_all (\<lambda>c. c < 55296 \<or> 57343 < c) n \<and> utf8_length n \<le> 255)"

text \<open>
  \<^verbatim>\<open>export_json\<close> for the request body \<open>req\<close>. The two early exits call
  \<^verbatim>\<open>res.iserr\<close> with the message only, and \<^verbatim>\<open>iserr(msg, err)\<close> has no default for
  \<open>err\<close>: the call raises (\<open>ArgumentError\<close>). The document is written when the
  file can be opened. An exception of \<^verbatim>\<open>json_to_csv\<close> leaves the handler; an error
  it returns becomes the response.
\<close>

definition export_json ::
  "set_order \<Rightarrow> ('db \<Rightarrow> json \<Rightarrow> py_error + 'db) \<Rightarrow> 'db state \<Rightarrow> json \<Rightarrow>
     response result \<times> 'db state" where
  "export_json rank insert_one st req =
     (if req = JNull then (Raises ArgumentError, st)
      else case py_get req (ustr ''dataset'') of Inl e \<Rightarrow> (Raises e, st)
      | Inr dataset \<Rightarrow>
     (case py_get req (ustr ''data'') of Inl e \<Rightarrow> (Raises e, st)
      | Inr data \<Rightarrow>
     (if dataset \<in> set [JNull, JStr []] \<and> data \<in> set [JNull, JStr [], JObj [], JArr []]
      then (Raises ArgumentError, st)
      else case dataset of
        JStr d \<Rightarrow>
          (let filename = py_replace (ustr ''csv'') (ustr ''json'')
                            (py_replace (ustr ''xlsx'') (ustr ''json'') d);
               written = (cleaned st)(filename \<mapsto> JsonFile data)
           in if \<not> file_name filename then (Raises OpenError, st)
              else case json_to_csv rank written filename of
                (Raises e, fs) \<Rightarrow> (Raises e, st\<lparr>cleaned := fs\<rparr>)
              | (Returns (Some err), fs) \<Rightarrow>
                  (Returns (IsErr (ustr ''Something went wrong'') err), st\<lparr>cleaned := fs\<rparr>)
              | (Returns None, fs) \<Rightarrow>
                 (case save_to_db insert_one (db st) req of
                    (Some err, d1) \<Rightarrow>
                      (Returns (IsErr (ustr ''Something went wrong'') err),
                       st\<lparr>cleaned := fs, db := d1\<rparr>)
                  | (None, d1) \<Rightarrow>
                     (case save_to_db insert_one d1 req of
                        (Some err, d2) \<Rightarrow>
                          (Returns (IsErr (ustr ''Something went wrong.'') err),
                           st\<lparr>cleaned := fs, db := d2\<rparr>)
                      | (None, d2) \<Rightarrow>
                          (Returns (Redirect (ustr ''export_data'')),
                           st\<lparr>cleaned := fs, db := d2\<rparr>))))
      | _ \<Rightarrow> (Raises AttributeError, st))))"

text \<open>A store that accepts every submission, and a state with empty folders.\<close>

definition accept_all :: "json list \<Rightarrow> json \<Rightarrow> py_error + json list" where
  "accept_all d v = Inr (d @ [v])"

definition empty_state :: "json list state" where
  "empty_state = \<lparr>uploads = Map.empty, cleaned = Map.empty, db = []\<rparr>"

definition hello_event :: json where
  "hello_event =
     JObj [(ustr ''page'', JInt 1), (ustr ''text'', JStr (ustr ''hello world'')),
           (ustr ''annotations'', JArr
              [JObj [(ustr ''tag'', JStr (ustr ''POZITIF'')), (ustr ''text'', JStr (ustr ''hello''))],
               JObj [(ustr ''tag'', JStr (ustr ''NEGATIF'')), (ustr ''text'', JStr (ustr ''world''))]])]"

text \<open>An iteration order for sets: every string has rank 0, so the order of entry is kept.\<close>

definition entry_order :: set_order where
  "entry_order xs x = 0"

definition hello_row :: "json list" where
  "hello_row =
     [JInt 1, JStr (ustr ''hello world''), JStr [], JStr (ustr ''hello''),
      JStr (ustr ''world''), JStr []]"

definition report_request :: json where
  "report_request =
     JObj [(ustr ''dataset'', JStr (ustr ''xlsx_report.csv'')),
           (ustr ''data'', JArr [hello_event])]"

definition data_request :: json where
  "data_request =
     JObj [(ustr ''dataset'', JStr (ustr ''data.csv'')), (ustr ''data'', JArr [hello_event])]"




definition sheet_state :: "json list state" where
  "sheet_state =
     \<lparr>uploads = Map.empty,
      cleaned = Map.empty(ustr ''data.xlsx'' \<mapsto> XlsxFile [ustr ''id'', ustr ''text''] []),
      db = []\<rparr>"

section \<open>The text normaliser: \<^verbatim>\<open>turkish_characters\<close> and \<^verbatim>\<open>clean_text\<close>\<close>

text \<open>
  The character classes and the lower-casing of Python follow the Unicode tables.
  For ASCII they are written out; for the other code points they are parameters:
  the lower case of a character in its context (what stands before and after it,
  which Python consults for the final sigma), and the classes of \<^verbatim>\<open>str.isspace\<close> and
  \<^verbatim>\<open>\s\<close>, of alphanumeric characters (\<^verbatim>\<open>\w\<close> without the underscore) and of
  decimal digits (\<^verbatim>\<open>\d\<close>).
\<close>

record unicode =
  lower_of :: "pystr \<Rightarrow> pychar \<Rightarrow> pystr \<Rightarrow> pystr"
  isspace :: "pychar \<Rightarrow> bool"
  isalnum :: "pychar \<Rightarrow> bool"
  isdecimal :: "pychar \<Rightarrow> bool"

definition is_space :: "unicode \<Rightarrow> pychar \<Rightarrow> bool" where
  "is_space U c =
     (if c < 128 then (9 \<le> c \<and> c \<le> 13) \<or> (28 \<le> c \<and> c \<le> 32) else isspace U c)"

definition ascii_alnum :: "pychar \<Rightarrow> bool" where
  "ascii_alnum c = ((48 \<le> c \<and> c \<le> 57) \<or> (65 \<le> c \<and> c \<le> 90) \<or> (97 \<le> c \<and> c \<le> 122))"

definition is_word :: "unicode \<Rightarrow> pychar \<Rightarrow> bool" where
  "is_word U c = (if c < 128 then ascii_alnum c \<or> c = 95 else isalnum U c)"

definition is_digit :: "unicode \<Rightarrow> pychar \<Rightarrow> bool" where
  "is_digit U c = (if c < 128 then 48 \<le> c \<and> c \<le> 57 else isdecimal U c)"

text \<open>
  \<^verbatim>\<open>text.translate(str.maketrans(...))\<close>: the twelve Turkish letters (g with breve,
  dotless i, dotted I, o and u with diaeresis, s and c with cedilla, in both cases)
  go to their ASCII letters, every other character stays.
\<close>

definition turkish_table :: "(pychar \<times> pychar) list" where
  "turkish_table =
     [(287, 103), (286, 71), (305, 105), (304, 73), (246, 111), (214, 79),
      (252, 117), (220, 85), (351, 115), (350, 83), (231, 99), (199, 67)]"

definition turkish_characters :: "pystr \<Rightarrow> pystr" where
  "turkish_characters text =
     map (\<lambda>c. case map_of turkish_table c of None \<Rightarrow> c | Some d \<Rightarrow> d) text"

text \<open>\<^verbatim>\<open>s.lower()\<close>, character by character, with what stands before.\<close>

fun lower_from :: "unicode \<Rightarrow> pystr \<Rightarrow> pystr \<Rightarrow> pystr" where
  "lower_from U pre [] = []"
| "lower_from U pre (c # cs) =
     (if c < 128 then [if 65 \<le> c \<and> c \<le> 90 then c + 32 else c] else lower_of U pre c cs)
     @ lower_from U (pre @ [c]) cs"

definition py_lower :: "unicode \<Rightarrow> pystr \<Rightarrow> pystr" where
  "py_lower U s = lower_from U [] s"

text \<open>\<^verbatim>\<open>s.split()\<close>: the maximal runs of characters that are not whitespace;
  \<open>w\<close> is the word read so far.\<close>

fun split_from :: "unicode \<Rightarrow> pystr \<Rightarrow> pystr \<Rightarrow> pystr list" where
  "split_from U w [] = (if w = [] then [] else [w])"
| "split_from U w (c # cs) =
     (if is_space U c then (if w = [] then split_from U [] cs else w # split_from U [] cs)
      else split_from U (w @ [c]) cs)"

definition py_split :: "unicode \<Rightarrow> pystr \<Rightarrow> pystr list" where
  "py_split U s = split_from U [] s"

text \<open>
  \<^verbatim>\<open>re.sub(pattern, repl, text)\<close> for a pattern that matches no empty string. The
  matcher gives the length of the match that starts at the head of the rest of the
  text, if there is one; \<open>start\<close> says whether the rest is the whole text (for
  \<^verbatim>\<open>^\<close>). The scan goes on behind a match, or behind the head when nothing
  matches there.
\<close>

type_synonym matcher = "bool \<Rightarrow> pystr \<Rightarrow> nat option"

fun re_sub :: "matcher \<Rightarrow> pystr \<Rightarrow> bool \<Rightarrow> pystr \<Rightarrow> pystr" where
  "re_sub m repl start [] = []"
| "re_sub m repl start (c # cs) =
     (case m start (c # cs) of
        Some (Suc n) \<Rightarrow> repl @ re_sub m repl False (drop n cs)
      | _ \<Rightarrow> c # re_sub m repl False cs)"

text \<open>
  The five alternatives of the first pattern, tried in this order at a position.
  \<^verbatim>\<open>(@\[A-Za-z0-9]+)\<close> is the literal text \<open>@[A-Za-z0-9\<close> followed by one or
  more closing brackets.
\<close>

definition mention_marker :: "pystr \<Rightarrow> nat option" where
  "mention_marker s =
     (if prefix (ustr ''@[A-Za-z0-9]'') s
      then Some (12 + length (takeWhile (\<lambda>c. c = 93) (drop 12 s)))
      else None)"

definition noise_char :: "pystr \<Rightarrow> nat option" where
  "noise_char s =
     (case s of [] \<Rightarrow> None
      | c # _ \<Rightarrow> if ascii_alnum c \<or> c = 32 \<or> c = 9 then None else Some 1)"

definition url_like :: "unicode \<Rightarrow> pystr \<Rightarrow> nat option" where
  "url_like U s =
     (let w = takeWhile (is_word U) s;
          r = drop (length w) s;
          t = takeWhile (\<lambda>c. \<not> is_space U c) (drop 3 r)
      in if w \<noteq> [] \<and> prefix (ustr ''://'') r \<and> t \<noteq> []
         then Some (length w + 3 + length t) else None)"

definition leading_rt :: "bool \<Rightarrow> pystr \<Rightarrow> nat option" where
  "leading_rt start s = (if start \<and> prefix (ustr ''rt'') s then Some 2 else None)"

definition http_char :: "pystr \<Rightarrow> nat option" where
  "http_char s =
     (if prefix (ustr ''http'') s \<and> 4 < length s \<and> s ! 4 \<noteq> 10 then Some 5 else None)"

definition noise_pattern :: "unicode \<Rightarrow> matcher" where
  "noise_pattern U start s =
     (case mention_marker s of Some n \<Rightarrow> Some n | None \<Rightarrow>
     (case noise_char s of Some n \<Rightarrow> Some n | None \<Rightarrow>
     (case url_like U s of Some n \<Rightarrow> Some n | None \<Rightarrow>
     (case leading_rt start s of Some n \<Rightarrow> Some n | None \<Rightarrow> http_char s))))"

text \<open>\<^verbatim>\<open>\W+\s*\<close> (the verbose pattern without its layout) and \<^verbatim>\<open>\d+\<close>.\<close>

definition nonword_pattern :: "unicode \<Rightarrow> matcher" where
  "nonword_pattern U start s =
     (let w = takeWhile (\<lambda>c. \<not> is_word U c) s
      in if w = [] then None
         else Some (length w + length (takeWhile (is_space U) (drop (length w) s))))"

definition digits_pattern :: "unicode \<Rightarrow> matcher" where
  "digits_pattern U start s =
     (let d = takeWhile (is_digit U) s in if d = [] then None else Some (length d))"

text \<open>\<^verbatim>\<open>clean_text\<close>, on a string (\<^verbatim>\<open>str(text)\<close> is then the text itself).\<close>

definition clean_text :: "unicode \<Rightarrow> pystr \<Rightarrow> pystr" where
  "clean_text U text =
     (let t1 = py_lower U text;
          t2 = py_join (ustr '' '')
                 (filter (\<lambda>word. 35 \<notin> set word \<and> 64 \<notin> set word) (py_split U t1));
          t3 = re_sub (noise_pattern U) [] True t2;
          t4 = re_sub (nonword_pattern U) (ustr '' '') True t3;
          t5 = re_sub (digits_pattern U) [] True t4
      in t5)"

text \<open>The normalisation of the cleaning pipeline: \<^verbatim>\<open>.apply(turkish_characters).apply(clean_text)\<close>.\<close>

definition normalize_text :: "unicode \<Rightarrow> pystr \<Rightarrow> pystr" where
  "normalize_text U x = clean_text U (turkish_characters x)"

text \<open>Unicode tables that leave every character beyond ASCII alone and outside all classes.\<close>

definition plain_tables :: unicode where
  "plain_tables =
     \<lparr>lower_of = (\<lambda>pre c post. [c]), isspace = (\<lambda>c. False),
      isalnum = (\<lambda>c. False), isdecimal = (\<lambda>c. False)\<rparr>"

text \<open>
  A text in the form the normaliser leaves alone: words of lower-case ASCII letters
  with one space between them and none around them, that does not start with
  \<open>rt\<close> and in which \<open>http\<close> is nowhere followed by a character.
\<close>

definition lower_letter :: "pychar \<Rightarrow> bool" where
  "lower_letter c = (97 \<le> c \<and> c \<le> 122)"

definition plain_chars :: "pystr \<Rightarrow> bool" where
  "plain_chars s = list_all (\<lambda>c. lower_letter c \<or> c = 32) s"

fun spaced_words :: "pystr \<Rightarrow> bool" where
  "spaced_words [] = True"
| "spaced_words (c # cs) =
     (if c = 32 then cs \<noteq> [] \<and> hd cs \<noteq> 32 \<and> spaced_words cs
      else lower_letter c \<and> spaced_words cs)"

fun has_http :: "pystr \<Rightarrow> bool" where
  "has_http [] = False"
| "has_http (c # cs) = ((prefix (ustr ''http'') (c # cs) \<and> 4 < length (c # cs)) \<or> has_http cs)"

definition settled :: "pystr \<Rightarrow> bool" where
  "settled y =
     (spaced_words y \<and> \<not> prefix (ustr '' '') y \<and> \<not> prefix (ustr ''rt'') y \<and> \<not> has_http y)"

section \<open>Cleaning and extraction of datasets\<close>

text \<open>
  A table read from a file: its column names and its rows, which have one cell for
  each column (where a row is shorter, the cells it lacks read as the missing value
  \<open>JNull\<close>). Reading a file in a container it does not have fails in the parser.
  A stored table stands for what the reader makes of the file; how the text of a
  file that pandas wrote is typed when it is read again is outside the model.
\<close>

type_synonym table = "pystr list \<times> json list list"

definition read_csv :: "folder \<Rightarrow> pystr \<Rightarrow> py_error + table" where
  "read_csv fs filename =
     (case fs filename of None \<Rightarrow> Inl (FileNotFoundError filename)
      | Some (CsvFile h rows) \<Rightarrow> Inr (h, rows)
      | Some _ \<Rightarrow> Inl DecodeError)"

definition read_excel :: "folder \<Rightarrow> pystr \<Rightarrow> py_error + table" where
  "read_excel fs filename =
     (case fs filename of None \<Rightarrow> Inl (FileNotFoundError filename)
      | Some (XlsxFile h rows) \<Rightarrow> Inr (h, rows)
      | Some _ \<Rightarrow> Inl DecodeError)"

fun index_of :: "'a list \<Rightarrow> 'a \<Rightarrow> nat" where
  "index_of [] x = 0"
| "index_of (y # ys) x = (if y = x then 0 else Suc (index_of ys x))"

definition cell :: "pystr list \<Rightarrow> pystr \<Rightarrow> json list \<Rightarrow> json" where
  "cell h col row = (let i = index_of h col in if i < length row then row ! i else JNull)"

text \<open>
  \<^verbatim>\<open>csv_to_xlsx(filename)\<close> copies the rows that \<^verbatim>\<open>csv.reader\<close> finds in the file of
  the cleaned-data folder to a workbook, saved under the name with every \<open>csv\<close>
  replaced by \<open>xlsx\<close>. The reader gives every cell as text: \<open>cell_text\<close>, a
  parameter, is the text pandas wrote for a value. A missing file raises.
\<close>

definition csv_to_xlsx :: "(json \<Rightarrow> pystr) \<Rightarrow> folder \<Rightarrow> pystr \<Rightarrow> py_error + folder" where
  "csv_to_xlsx cell_text fs filename =
     (case fs filename of None \<Rightarrow> Inl (FileNotFoundError filename)
      | Some (CsvFile h rows) \<Rightarrow>
          Inr (fs(py_replace (ustr ''csv'') (ustr ''xlsx'') filename \<mapsto>
                    XlsxFile h (map (map (\<lambda>v. JStr (cell_text v))) rows)))
      | Some _ \<Rightarrow> Inl DecodeError)"

text \<open>\<^verbatim>\<open>.apply(turkish_characters).apply(clean_text)\<close> on one cell: only a string
  has \<^verbatim>\<open>translate\<close>.\<close>

fun clean_cell :: "unicode \<Rightarrow> json \<Rightarrow> py_error + json" where
  "clean_cell U (JStr s) = Inr (JStr (clean_text U (turkish_characters s)))"
| "clean_cell U v = Inl AttributeError"

fun clean_cells :: "unicode \<Rightarrow> json list \<Rightarrow> py_error + json list" where
  "clean_cells U [] = Inr []"
| "clean_cells U (v # vs) =
     (case clean_cell U v of Inl e \<Rightarrow> Inl e
      | Inr c \<Rightarrow> (case clean_cells U vs of Inl e \<Rightarrow> Inl e | Inr cs \<Rightarrow> Inr (c # cs)))"

text \<open>\<^verbatim>\<open>df['clean_text'] = text_list\<close>: the column is replaced where it is, or added
  as the last one.\<close>

definition set_column :: "table \<Rightarrow> pystr \<Rightarrow> json list \<Rightarrow> table" where
  "set_column t col vs =
     (if col \<in> set (fst t)
      then (fst t, map (\<lambda>(row, v). row[index_of (fst t) col := v]) (zip (snd t) vs))
      else (fst t @ [col], map (\<lambda>(row, v). row @ [v]) (zip (snd t) vs)))"

text \<open>
  The body of the \<^verbatim>\<open>try\<close> block of \<^verbatim>\<open>data_cleaner\<close>: the exception that ends it,
  if any, and the state it leaves. The second test looks for \<open>xslx\<close>, as the
  source does.
\<close>

definition data_cleaner_try ::
  "unicode \<Rightarrow> (json \<Rightarrow> pystr) \<Rightarrow> 'db state \<Rightarrow> pystr \<Rightarrow> py_error option \<times> 'db state" where
  "data_cleaner_try U cell_text st filename =
     (case (if py_in (ustr ''csv'') filename
            then (case read_csv (uploads st) filename of Inl e \<Rightarrow> Inl e | Inr t \<Rightarrow> Inr (Some t))
            else Inr None) of
        Inl e \<Rightarrow> (Some e, st)
      | Inr df1 \<Rightarrow>
     (case (if py_in (ustr ''xslx'') filename
            then (case read_excel (uploads st) filename of Inl e \<Rightarrow> Inl e | Inr t \<Rightarrow> Inr (Some t))
            else Inr df1) of
        Inl e \<Rightarrow> (Some e, st)
      | Inr None \<Rightarrow>
          (Some (FileNotFoundError (ustr ''DataFrame is not implemented via files.'')), st)
      | Inr (Some df) \<Rightarrow>
          (if ustr ''text'' \<notin> set (fst df) then (Some AttributeError, st)
           else case clean_cells U (map (cell (fst df) (ustr ''text'')) (snd df)) of
             Inl e \<Rightarrow> (Some e, st)
           | Inr text_list \<Rightarrow>
              (let df' = set_column df (ustr ''clean_text'') text_list;
                   written = (cleaned st)(filename \<mapsto> CsvFile (fst df') (snd df'))
               in case csv_to_xlsx cell_text written filename of
                    Inl e \<Rightarrow> (Some e, st\<lparr>cleaned := written\<rparr>)
                  | Inr fs \<Rightarrow> (None, st\<lparr>cleaned := fs\<rparr>)))))"

definition data_cleaner ::
  "unicode \<Rightarrow> (json \<Rightarrow> pystr) \<Rightarrow> 'db state \<Rightarrow> pystr \<Rightarrow> response \<times> 'db state" where
  "data_cleaner U cell_text st filename =
     (case data_cleaner_try U cell_text st filename of
        (Some e, st') \<Rightarrow>
          (IsErr (ustr ''Verilen dataset temizlenirken bir hata meyadana geldi.'') e, st')
      | (None, st') \<Rightarrow> (Redirect (ustr ''clean_data''), st'))"

text \<open>
  \<^verbatim>\<open>extract_text_and_ids_from_dataset\<close> first loads the file. The two tests on the
  name are independent; when neither holds \<open>df\<close> is unbound. \<^verbatim>\<open>usecols\<close> wants both
  columns and keeps the order they have in the file, which is the order in the
  tuples.
\<close>

definition usecols :: "table \<Rightarrow> py_error + table" where
  "usecols t =
     (if ustr ''id'' \<in> set (fst t) \<and> ustr ''text'' \<in> set (fst t) then Inr t else Inl ValueError)"

definition load_dataset :: "folder \<Rightarrow> pystr \<Rightarrow> py_error + table" where
  "load_dataset fs filename =
     (case (if py_in (ustr ''csv'') filename
            then (case read_csv fs filename of Inl e \<Rightarrow> Inl e
                  | Inr t \<Rightarrow> (case usecols t of Inl e \<Rightarrow> Inl e | Inr df \<Rightarrow> Inr (Some df)))
            else Inr None) of
        Inl e \<Rightarrow> Inl e
      | Inr df1 \<Rightarrow>
     (case (if py_in (ustr ''xlsx'') filename
            then (case read_excel fs filename of Inl e \<Rightarrow> Inl e
                  | Inr t \<Rightarrow> (case usecols t of Inl e \<Rightarrow> Inl e | Inr df \<Rightarrow> Inr (Some df)))
            else Inr df1) of
        Inl e \<Rightarrow> Inl e
      | Inr None \<Rightarrow> Inl UnboundLocalError
      | Inr (Some df) \<Rightarrow> Inr df))"

text \<open>
  The coercions of pandas work on a whole column, whose cells the reader has given
  one type. \<^verbatim>\<open>astype('int64')\<close>: a column of integers that are all in the signed
  64-bit range is kept; a column of integers from 0 to \<open>2^64 - 1\<close> (the unsigned
  type, which the reader chooses when some value needs it) is cast without a check,
  so its values wrap modulo \<open>2^64\<close>; a column with a missing value, or with a text
  that has no digit (which \<^verbatim>\<open>int\<close> refuses), raises. For the columns that these
  cases leave (booleans, numeric text, larger integers) the result is the parameter
  \<open>other\<close>.
\<close>

fun is_int64 :: "json \<Rightarrow> bool" where
  "is_int64 (JInt i) = (- (2 ^ 63) \<le> i \<and> i < 2 ^ 63)"
| "is_int64 v = False"

fun is_uint64 :: "json \<Rightarrow> bool" where
  "is_uint64 (JInt i) = (0 \<le> i \<and> i < 2 ^ 64)"
| "is_uint64 v = False"

fun int_of :: "json \<Rightarrow> int" where
  "int_of (JInt i) = i"
| "int_of v = 0"

fun no_integer :: "json \<Rightarrow> bool" where
  "no_integer JNull = True"
| "no_integer (JStr s) = list_all (\<lambda>c. c < 48 \<or> (57 < c \<and> c < 128)) s"
| "no_integer v = False"

definition astype_int64 ::
  "(json list \<Rightarrow> py_error + 64 word list) \<Rightarrow> json list \<Rightarrow> py_error + 64 word list" where
  "astype_int64 other col =
     (if list_all is_int64 col \<or> list_all is_uint64 col
      then Inr (map (\<lambda>v. word_of_int (int_of v)) col)
      else if list_ex no_integer col then Inl ValueError
      else other col)"

text \<open>
  \<^verbatim>\<open>astype('string')\<close>: in a column of strings and missing values a string stays
  and a missing value stays missing (\<open>None\<close>); in a column of integers every
  integer becomes its decimal text. Other columns are left to the parameter.
\<close>

fun decimal :: "nat \<Rightarrow> pystr" where
  "decimal n = (if n < 10 then [48 + n] else decimal (n div 10) @ [48 + n mod 10])"

declare decimal.simps [simp del]

definition py_str_int :: "int \<Rightarrow> pystr" where
  "py_str_int i = (if i < 0 then 45 # decimal (nat (- i)) else decimal (nat i))"

fun is_str :: "json \<Rightarrow> bool" where
  "is_str (JStr s) = True"
| "is_str v = False"

fun text_of :: "json \<Rightarrow> pystr option" where
  "text_of (JStr s) = Some s"
| "text_of (JInt i) = Some (py_str_int i)"
| "text_of v = None"

definition astype_string ::
  "(json list \<Rightarrow> py_error + pystr option list) \<Rightarrow> json list \<Rightarrow> py_error + pystr option list" where
  "astype_string other col =
     (if list_all (\<lambda>v. is_str v \<or> v = JNull) col \<or> list_all is_int64 col \<or> list_all is_uint64 col
      then Inr (map text_of col)
      else other col)"

text \<open>The values in the tuples: a 64-bit integer, or a string or the missing value.\<close>

datatype pdvalue = Int64 "64 word" | Str "pystr option"

definition extract_text_and_ids_from_dataset ::
  "(json list \<Rightarrow> py_error + 64 word list) \<Rightarrow> (json list \<Rightarrow> py_error + pystr option list) \<Rightarrow>
     folder \<Rightarrow> pystr \<Rightarrow> py_error + (pdvalue \<times> pdvalue) list" where
  "extract_text_and_ids_from_dataset other_int64 other_string fs filename =
     (case load_dataset fs filename of Inl e \<Rightarrow> Inl e
      | Inr df \<Rightarrow>
     (case astype_int64 other_int64 (map (cell (fst df) (ustr ''id'')) (snd df)) of
        Inl e \<Rightarrow> Inl e
      | Inr ids \<Rightarrow>
     (case astype_string other_string (map (cell (fst df) (ustr ''text'')) (snd df)) of
        Inl e \<Rightarrow> Inl e
      | Inr texts \<Rightarrow>
          Inr (if index_of (fst df) (ustr ''id'') < index_of (fst df) (ustr ''text'')
               then zip (map Int64 ids) (map Str texts)
               else zip (map Str texts) (map Int64 ids)))))"



definition sheet_upload :: "json list state" where
  "sheet_upload =
     \<lparr>uploads = Map.empty(ustr ''data.xlsx'' \<mapsto>
                  XlsxFile [ustr ''id'', ustr ''text''] [[JInt 1, JStr (ustr ''Merhaba'')]]),
      cleaned = Map.empty, db = []\<rparr>"

text \<open>
  A sample of the text written for a cell: a string as it is, nothing for any other
  value. A sample upload whose name contains \<open>xlsx\<close> as well as \<open>csv\<close>.
\<close>

fun sample_text :: "json \<Rightarrow> pystr" where
  "sample_text (JStr s) = s"
| "sample_text v = []"

definition xlsx_named_upload :: "json list state" where
  "xlsx_named_upload =
     \<lparr>uploads = Map.empty(ustr ''xlsx_data.csv'' \<mapsto>
                  CsvFile [ustr ''id'', ustr ''text''] [[JInt 1, JStr (ustr ''Merhaba'')]]),
      cleaned = Map.empty, db = []\<rparr>"

section \<open>Properties\<close>

lemma translate_cases:
  "map_of translate_json t = Some c \<Longrightarrow>
     c = ustr ''company'' \<or> c = ustr ''positive'' \<or> c = ustr ''negative'' \<or> c = ustr ''notr''"
  by (auto simp: translate_json_def split: if_splits)

subsection \<open>The aggregator on typed submissions\<close>

lemma annotate_json:
  "annotate temp (annotation_json a) =
     (case map_of translate_json (tag a) of
        None \<Rightarrow> Inl (KeyError (JStr (tag a)))
      | Some c \<Rightarrow> Inr (append_to temp c (JStr (ann_text a))))"
  by (simp add: annotate_def annotation_json_def ustr_def split: option.splits)

lemma append_to_frame4:
  "append_to (frame4 cs ps ns os) k v =
     frame4 (if k = ustr ''company'' then cs @ [v] else cs)
            (if k = ustr ''positive'' then ps @ [v] else ps)
            (if k = ustr ''negative'' then ns @ [v] else ns)
            (if k = ustr ''notr'' then os @ [v] else os)"
  by (simp add: append_to_def frame4_def)

lemma annotations_loop_valid:
  "list_all (\<lambda>a. map_of translate_json (tag a) \<noteq> None) as \<Longrightarrow>
   annotations_loop (frame4 cs ps ns os) (map annotation_json as) =
     Inr (frame4 (cs @ map JStr (texts_of (ustr ''company'') as))
                 (ps @ map JStr (texts_of (ustr ''positive'') as))
                 (ns @ map JStr (texts_of (ustr ''negative'') as))
                 (os @ map JStr (texts_of (ustr ''notr'') as)))"
proof (induction as arbitrary: cs ps ns os)
  case Nil
  then show ?case by (simp add: texts_of_def)
next
  case (Cons a as)
  from Cons.prems obtain k where k: "map_of translate_json (tag a) = Some k" by auto
  from Cons.prems have rest: "list_all (\<lambda>a. map_of translate_json (tag a) \<noteq> None) as" by simp
  have d: "ustr ''company'' \<noteq> ustr ''positive''" "ustr ''company'' \<noteq> ustr ''negative''"
     "ustr ''company'' \<noteq> ustr ''notr''" "ustr ''positive'' \<noteq> ustr ''negative''"
     "ustr ''positive'' \<noteq> ustr ''notr''" "ustr ''negative'' \<noteq> ustr ''notr''"
    by (simp_all add: ustr_def)
  from translate_cases[OF k] show ?case
    using d by (auto simp: annotate_json k append_to_frame4 Cons.IH[OF rest] texts_of_def)
qed

lemma annotations_loop_invalid:
  "\<not> list_all (\<lambda>a. map_of translate_json (tag a) \<noteq> None) as \<Longrightarrow>
   annotations_loop temp (map annotation_json as) =
     Inl (KeyError (JStr (hd (filter (\<lambda>t. map_of translate_json t = None) (map tag as)))))"
proof (induction as arbitrary: temp)
  case Nil
  then show ?case by simp
next
  case (Cons a as)
  show ?case
  proof (cases "map_of translate_json (tag a)")
    case None
    then show ?thesis by (simp add: annotate_json)
  next
    case (Some k)
    with Cons.prems have "\<not> list_all (\<lambda>a. map_of translate_json (tag a) \<noteq> None) as" by simp
    from Cons.IH[OF this] Some show ?thesis by (simp add: annotate_json)
  qed
qed

lemma strs_of_JStr: "strs_of (map JStr ts) = Some ts"
  by (induction ts) simp_all

lemma new_value_JStr:
  "new_value rank (map JStr ts) =
     Inr (if ts = [] then [] else py_join (ustr ''|'') (py_list_set rank ts))"
  by (simp add: new_value_def strs_of_JStr)

lemma append_to_frame6:
  "append_to (frame6 is ts cs ps ns os) k v =
     frame6 (if k = ustr ''id'' then is @ [v] else is)
            (if k = ustr ''text'' then ts @ [v] else ts)
            (if k = ustr ''company'' then cs @ [v] else cs)
            (if k = ustr ''positive'' then ps @ [v] else ps)
            (if k = ustr ''negative'' then ns @ [v] else ns)
            (if k = ustr ''notr'' then os @ [v] else os)"
  by (simp add: append_to_def frame6_def)

lemma key_distinct:
  "ustr ''id'' \<noteq> ustr ''text''" "ustr ''id'' \<noteq> ustr ''company''"
  "ustr ''id'' \<noteq> ustr ''positive''" "ustr ''id'' \<noteq> ustr ''negative''"
  "ustr ''id'' \<noteq> ustr ''notr''" "ustr ''text'' \<noteq> ustr ''id''"
  "ustr ''text'' \<noteq> ustr ''company''"
  "ustr ''text'' \<noteq> ustr ''positive''" "ustr ''text'' \<noteq> ustr ''negative''"
  "ustr ''text'' \<noteq> ustr ''notr''"
  "ustr ''company'' \<noteq> ustr ''id''" "ustr ''company'' \<noteq> ustr ''text''"
  "ustr ''company'' \<noteq> ustr ''positive''" "ustr ''company'' \<noteq> ustr ''negative''"
  "ustr ''company'' \<noteq> ustr ''notr''"
  "ustr ''positive'' \<noteq> ustr ''id''" "ustr ''positive'' \<noteq> ustr ''text''"
  "ustr ''positive'' \<noteq> ustr ''company''" "ustr ''positive'' \<noteq> ustr ''negative''"
  "ustr ''positive'' \<noteq> ustr ''notr''"
  "ustr ''negative'' \<noteq> ustr ''id''" "ustr ''negative'' \<noteq> ustr ''text''"
  "ustr ''negative'' \<noteq> ustr ''company''" "ustr ''negative'' \<noteq> ustr ''positive''"
  "ustr ''negative'' \<noteq> ustr ''notr''"
  "ustr ''notr'' \<noteq> ustr ''id''" "ustr ''notr'' \<noteq> ustr ''text''"
  "ustr ''notr'' \<noteq> ustr ''company''" "ustr ''notr'' \<noteq> ustr ''positive''"
  "ustr ''notr'' \<noteq> ustr ''negative''"
  by (simp_all add: ustr_def)

lemma categories_loop_frame:
  "categories_loop rank (frame6 is ts cs ps ns os)
      (frame4 (map JStr a) (map JStr b) (map JStr c) (map JStr d)) =
   Inr (frame6 is ts
     (cs @ [JStr (if a = [] then [] else py_join (ustr ''|'') (py_list_set rank a))])
     (ps @ [JStr (if b = [] then [] else py_join (ustr ''|'') (py_list_set rank b))])
     (ns @ [JStr (if c = [] then [] else py_join (ustr ''|'') (py_list_set rank c))])
     (os @ [JStr (if d = [] then [] else py_join (ustr ''|'') (py_list_set rank d))]))"
  unfolding frame4_def
  by (simp add: new_value_JStr append_to_frame6 key_distinct del: map_is_Nil_conv)

lemma event_fields:
  "py_getitem (event_json e) (ustr ''page'') = Inr (JInt (page e))"
  "py_getitem (event_json e) (ustr ''text'') = Inr (JStr (ev_text e))"
  "py_getitem (event_json e) (ustr ''annotations'') =
     Inr (JArr (map annotation_json (annotations e)))"
  by (simp_all add: event_json_def key_distinct ustr_def)

lemma temp_data_frame4: "temp_data = frame4 [] [] [] []"
  by (simp add: temp_data_def frame4_def)

lemma event_body_valid:
  assumes "known_tags e"
  shows "event_body rank (frame6 is ts cs ps ns os) (event_json e) =
     Next (frame6 (is @ [JInt (page e)]) (ts @ [JStr (ev_text e)])
            (cs @ [JStr (category_field rank (ustr ''company'') e)])
            (ps @ [JStr (category_field rank (ustr ''positive'') e)])
            (ns @ [JStr (category_field rank (ustr ''negative'') e)])
            (os @ [JStr (category_field rank (ustr ''notr'') e)]))"
proof -
  have "annotations_loop temp_data (map annotation_json (annotations e)) =
      Inr (frame4 (map JStr (texts_of (ustr ''company'') (annotations e)))
                  (map JStr (texts_of (ustr ''positive'') (annotations e)))
                  (map JStr (texts_of (ustr ''negative'') (annotations e)))
                  (map JStr (texts_of (ustr ''notr'') (annotations e))))"
    using annotations_loop_valid[of "annotations e" "[]" "[]" "[]" "[]"] assms
    by (simp add: known_tags_def temp_data_frame4)
  then show ?thesis
    by (simp add: event_body_def event_fields append_to_frame6 key_distinct
        categories_loop_frame category_field_def Let_def)
qed

lemma event_body_invalid:
  assumes "\<not> known_tags e"
  shows "event_body rank df (event_json e) =
     Return (KeyError (JStr (hd (filter (\<lambda>t. map_of translate_json t = None)
                                   (map tag (annotations e))))))"
  using annotations_loop_invalid[of "annotations e" temp_data] assms
  by (simp add: event_body_def event_fields known_tags_def)

lemma unknown_iff:
  "(t \<notin> set (map fst translate_json)) = (map_of translate_json t = None)"
  "(t \<notin> fst ` set translate_json) = (map_of translate_json t = None)"
  by (simp_all add: map_of_eq_None_iff)

lemma unknown_tags_Cons:
  "unknown_tags (e # es) =
     filter (\<lambda>t. map_of translate_json t = None) (map tag (annotations e)) @ unknown_tags es"
  by (simp add: unknown_tags_def unknown_iff)

lemma known_tags_filter:
  "known_tags e = (filter (\<lambda>t. map_of translate_json t = None) (map tag (annotations e)) = [])"
  by (simp add: known_tags_def filter_empty_conv list_all_iff)

lemma unknown_tags_Nil_iff: "(unknown_tags es = []) = list_all known_tags es"
proof (induction es)
  case Nil
  show ?case by (simp add: unknown_tags_def)
next
  case (Cons e es)
  then show ?case by (simp add: unknown_tags_Cons known_tags_filter)
qed

lemma events_loop_valid:
  "list_all known_tags es \<Longrightarrow>
   events_loop rank (frame6 is ts cs ps ns os) (map event_json es) =
     Next (frame6 (is @ map (\<lambda>e. JInt (page e)) es) (ts @ map (\<lambda>e. JStr (ev_text e)) es)
            (cs @ map (\<lambda>e. JStr (category_field rank (ustr ''company'') e)) es)
            (ps @ map (\<lambda>e. JStr (category_field rank (ustr ''positive'') e)) es)
            (ns @ map (\<lambda>e. JStr (category_field rank (ustr ''negative'') e)) es)
            (os @ map (\<lambda>e. JStr (category_field rank (ustr ''notr'') e)) es))"
proof (induction es arbitrary: "is" ts cs ps ns os)
  case Nil
  then show ?case by simp
next
  case (Cons e es)
  then have e: "known_tags e" and rest: "list_all known_tags es" by simp_all
  show ?case by (simp add: event_body_valid[OF e] Cons.IH[OF rest])
qed

lemma events_loop_invalid:
  "\<not> list_all known_tags es \<Longrightarrow>
   events_loop rank (frame6 is ts cs ps ns os) (map event_json es) =
     Return (KeyError (JStr (hd (unknown_tags es))))"
proof (induction es arbitrary: "is" ts cs ps ns os)
  case Nil
  then show ?case by simp
next
  case (Cons e es)
  show ?case
  proof (cases "known_tags e")
    case True
    with Cons.prems have rest: "\<not> list_all known_tags es" by simp
    from True have "unknown_tags (e # es) = unknown_tags es"
      by (simp add: unknown_tags_Cons known_tags_filter)
    then show ?thesis by (simp add: event_body_valid[OF True] Cons.IH[OF rest])
  next
    case False
    then have "filter (\<lambda>t. map_of translate_json t = None) (map tag (annotations e)) \<noteq> []"
      by (simp add: known_tags_filter)
    then have "hd (unknown_tags (e # es)) =
        hd (filter (\<lambda>t. map_of translate_json t = None) (map tag (annotations e)))"
      by (simp add: unknown_tags_Cons)
    then show ?thesis by (simp add: event_body_invalid[OF False])
  qed
qed

lemma df_data_frame6: "df_data = frame6 [] [] [] [] [] []"
  by (simp add: df_data_def frame6_def)

lemma DataFrame_frame6:
  "DataFrame (frame6 (map f1 es) (map f2 es) (map f3 es) (map f4 es) (map f5 es) (map f6 es)) =
     Inr (frame6 (map f1 es) (map f2 es) (map f3 es) (map f4 es) (map f5 es) (map f6 es))"
  by (simp add: DataFrame_def frame6_def)

lemma frame_rows_frame6:
  "frame_rows (frame6 (map f1 es) (map f2 es) (map f3 es) (map f4 es) (map f5 es) (map f6 es)) =
     map (\<lambda>e. [f1 e, f2 e, f3 e, f4 e, f5 e, f6 e]) es"
  by (rule nth_equalityI) (simp_all add: frame_rows_def frame6_def)

lemma json_to_csv_valid:
  assumes "fs name = Some (JsonFile (submission_json es))" and "list_all known_tags es"
  shows "json_to_csv rank fs name =
     (Returns None,
      fs(py_replace (ustr ''json'') (ustr ''csv'') name \<mapsto>
           CsvFile export_columns (map (aggregate_spec rank) es)))"
proof -
  have rows: "(\<lambda>e. [JInt (page e), JStr (ev_text e),
                 JStr (category_field rank (ustr ''company'') e),
                 JStr (category_field rank (ustr ''positive'') e),
                 JStr (category_field rank (ustr ''negative'') e),
                 JStr (category_field rank (ustr ''notr'') e)]) = aggregate_spec rank"
    by (rule ext) (simp add: aggregate_spec_def)
  have cols: "map fst (frame6 a b c d e f) = export_columns" for a b c d e f
    by (simp add: frame6_def export_columns_def)
  show ?thesis
    using assms events_loop_valid[of es rank "[]" "[]" "[]" "[]" "[]" "[]"]
    by (simp add: json_to_csv_def json_load_def submission_json_def df_data_frame6
        DataFrame_frame6 to_csv_def frame_rows_frame6 rows cols)
qed

lemma json_to_csv_invalid:
  assumes "fs name = Some (JsonFile (submission_json es))" and "\<not> list_all known_tags es"
  shows "json_to_csv rank fs name = (Returns (Some (KeyError (JStr (hd (unknown_tags es))))), fs)"
  using assms events_loop_invalid[of es rank "[]" "[]" "[]" "[]" "[]" "[]"]
  by (simp add: json_to_csv_def json_load_def submission_json_def df_data_frame6)

lemma translate_json_values:
  "map_of translate_json (ustr ''FIRMA'') = Some (ustr ''company'')"
  "map_of translate_json (ustr ''POZITIF'') = Some (ustr ''positive'')"
  "map_of translate_json (ustr ''NEGATIF'') = Some (ustr ''negative'')"
  "map_of translate_json (ustr ''NOTR'') = Some (ustr ''notr'')"
  "map_of translate_json (ustr ''UNKNOWN'') = None"
  by (simp_all add: translate_json_def ustr_def)

text \<open>
  Claim C1. When some annotation of some event of the submission file carries a tag
  outside the vocabulary of four tags, \<^verbatim>\<open>json_to_csv\<close> returns the \<^verbatim>\<open>KeyError\<close>
  of the first such tag and leaves the folder as it was: no row and no file is
  written, whatever the other annotations and events are.
\<close>

theorem unknown_tag_aborts_aggregation:
  assumes "e \<in> set es" and "a \<in> set (annotations e)"
    and "tag a \<notin> set (map fst translate_json)"
  shows "json_to_csv rank (fs(name \<mapsto> JsonFile (submission_json es))) name =
           (Returns (Some (KeyError (JStr (hd (unknown_tags es))))),
            fs(name \<mapsto> JsonFile (submission_json es)))
         \<and> hd (unknown_tags es) \<notin> set (map fst translate_json)"
proof -
  from assms have "tag a \<in> set (unknown_tags es)"
    by (auto simp: unknown_tags_def)
  then have ne: "unknown_tags es \<noteq> []" by auto
  then have "hd (unknown_tags es) \<in> set (unknown_tags es)" by simp
  then have out: "hd (unknown_tags es) \<notin> set (map fst translate_json)"
    by (simp add: unknown_tags_def)
  from ne have "\<not> list_all known_tags es" by (simp add: unknown_tags_Nil_iff)
  from json_to_csv_invalid[OF _ this, of "fs(name \<mapsto> JsonFile (submission_json es))" name rank]
    out show ?thesis by simp
qed

theorem unknown_tag_aborts_aggregation_witness:
  "bad_event \<in> set [good_event, bad_event]
   \<and> \<lparr>tag = ustr ''UNKNOWN'', ann_text = ustr ''x''\<rparr> \<in> set (annotations bad_event)
   \<and> ustr ''UNKNOWN'' \<notin> set (map fst translate_json)
   \<and> json_to_csv (\<lambda>xs x. 0)
        (Map.empty(ustr ''d.json'' \<mapsto> JsonFile (submission_json [good_event, bad_event])))
        (ustr ''d.json'') =
      (Returns (Some (KeyError (JStr (ustr ''UNKNOWN'')))),
       Map.empty(ustr ''d.json'' \<mapsto> JsonFile (submission_json [good_event, bad_event])))"
proof -
  have m: "ustr ''UNKNOWN'' \<notin> set (map fst translate_json)"
    by (simp add: unknown_iff translate_json_values)
  have u: "unknown_tags [good_event, bad_event] = [ustr ''UNKNOWN'']"
    by (simp add: unknown_tags_def good_event_def bad_event_def unknown_iff
        translate_json_values)
  have a: "\<lparr>tag = ustr ''UNKNOWN'', ann_text = ustr ''x''\<rparr> \<in> set (annotations bad_event)"
    by (simp add: bad_event_def)
  show ?thesis
    using unknown_tag_aborts_aggregation[of bad_event "[good_event, bad_event]"
        "\<lparr>tag = ustr ''UNKNOWN'', ann_text = ustr ''x''\<rparr>" "\<lambda>xs x. 0" Map.empty "ustr ''d.json''"]
      m a by (simp add: u)
qed

text \<open>
  Claim C8. For a submission whose tags are all in the vocabulary, the table written
  has the columns id, text, company, positive, negative, notr in this order and one
  row per event, in the order of the events; events that share a page each give a row.
\<close>

theorem export_one_row_per_event:
  assumes "unknown_tags es = []"
  shows "json_to_csv rank (fs(name \<mapsto> JsonFile (submission_json es))) name =
           (Returns None,
            (fs(name \<mapsto> JsonFile (submission_json es)))
              (py_replace (ustr ''json'') (ustr ''csv'') name \<mapsto>
                 CsvFile export_columns (map (aggregate_spec rank) es)))
         \<and> length (map (aggregate_spec rank) es) = length es
         \<and> map (\<lambda>r. (r ! 0, r ! 1)) (map (aggregate_spec rank) es) =
             map (\<lambda>e. (JInt (page e), JStr (ev_text e))) es"
proof -
  from assms have "list_all known_tags es" by (simp add: unknown_tags_Nil_iff)
  from json_to_csv_valid[OF _ this, of "fs(name \<mapsto> JsonFile (submission_json es))" name rank]
  show ?thesis by (simp add: aggregate_spec_def)
qed

theorem export_one_row_per_event_witness:
  "unknown_tags same_page_events = []
   \<and> json_to_csv (\<lambda>xs. length)
        (Map.empty(ustr ''d.json'' \<mapsto> JsonFile (submission_json same_page_events)))
        (ustr ''d.json'') =
      (Returns None,
       Map.empty(ustr ''d.json'' \<mapsto> JsonFile (submission_json same_page_events),
         ustr ''d.csv'' \<mapsto>
           CsvFile export_columns
             [[JInt 7, JStr (ustr ''a b''), JStr (ustr ''a''), JStr [], JStr [], JStr []],
              [JInt 7, JStr (ustr ''a b''), JStr [], JStr [], JStr (ustr ''a|bb''), JStr []]]))"
proof -
  have u: "unknown_tags same_page_events = []"
    by (simp add: unknown_tags_def same_page_events_def unknown_iff translate_json_values)
  have n: "py_replace (ustr ''json'') (ustr ''csv'') (ustr ''d.json'') = ustr ''d.csv''"
    by (simp add: ustr_def)
  have r: "map (aggregate_spec (\<lambda>xs. length)) same_page_events =
      [[JInt 7, JStr (ustr ''a b''), JStr (ustr ''a''), JStr [], JStr [], JStr []],
       [JInt 7, JStr (ustr ''a b''), JStr [], JStr [], JStr (ustr ''a|bb''), JStr []]]"
    by (simp add: same_page_events_def aggregate_spec_def category_field_def texts_of_def
        translate_json_values key_distinct py_list_set_def)
       (simp add: ustr_def)
  show ?thesis
    using export_one_row_per_event[OF u, of "\<lambda>xs. length" Map.empty "ustr ''d.json''"]
    by (simp add: u n r)
qed

text \<open>
  Claim C3. The event with page 1, text \<open>hello world\<close> and the annotations
  POZITIF \<open>hello\<close>, POZITIF \<open>hello\<close>, NEGATIF \<open>world\<close> gives exactly the row
  1, \<open>hello world\<close>, empty, \<open>hello\<close>, \<open>world\<close>, empty: the duplicate collapses and
  a category without annotations is the empty string, for every iteration order of sets.
\<close>

theorem hello_world_scenario:
  "json_to_csv rank
     (fs(name \<mapsto> JsonFile (JArr
        [JObj [(ustr ''page'', JInt 1), (ustr ''text'', JStr (ustr ''hello world'')),
               (ustr ''annotations'', JArr
                  [JObj [(ustr ''tag'', JStr (ustr ''POZITIF'')), (ustr ''text'', JStr (ustr ''hello''))],
                   JObj [(ustr ''tag'', JStr (ustr ''POZITIF'')), (ustr ''text'', JStr (ustr ''hello''))],
                   JObj [(ustr ''tag'', JStr (ustr ''NEGATIF'')), (ustr ''text'', JStr (ustr ''world''))]])]])))
     name =
   (Returns None,
    (fs(name \<mapsto> JsonFile (JArr
        [JObj [(ustr ''page'', JInt 1), (ustr ''text'', JStr (ustr ''hello world'')),
               (ustr ''annotations'', JArr
                  [JObj [(ustr ''tag'', JStr (ustr ''POZITIF'')), (ustr ''text'', JStr (ustr ''hello''))],
                   JObj [(ustr ''tag'', JStr (ustr ''POZITIF'')), (ustr ''text'', JStr (ustr ''hello''))],
                   JObj [(ustr ''tag'', JStr (ustr ''NEGATIF'')), (ustr ''text'', JStr (ustr ''world''))]])]])))
      (py_replace (ustr ''json'') (ustr ''csv'') name \<mapsto>
         CsvFile [ustr ''id'', ustr ''text'', ustr ''company'', ustr ''positive'',
                  ustr ''negative'', ustr ''notr'']
           [[JInt 1, JStr (ustr ''hello world''), JStr [], JStr (ustr ''hello''),
             JStr (ustr ''world''), JStr []]]))"
proof -
  define ev where "ev = \<lparr>page = 1, ev_text = ustr ''hello world'',
     annotations = [\<lparr>tag = ustr ''POZITIF'', ann_text = ustr ''hello''\<rparr>,
                    \<lparr>tag = ustr ''POZITIF'', ann_text = ustr ''hello''\<rparr>,
                    \<lparr>tag = ustr ''NEGATIF'', ann_text = ustr ''world''\<rparr>]\<rparr>"
  have j: "JArr
        [JObj [(ustr ''page'', JInt 1), (ustr ''text'', JStr (ustr ''hello world'')),
               (ustr ''annotations'', JArr
                  [JObj [(ustr ''tag'', JStr (ustr ''POZITIF'')), (ustr ''text'', JStr (ustr ''hello''))],
                   JObj [(ustr ''tag'', JStr (ustr ''POZITIF'')), (ustr ''text'', JStr (ustr ''hello''))],
                   JObj [(ustr ''tag'', JStr (ustr ''NEGATIF'')), (ustr ''text'', JStr (ustr ''world''))]])]]
      = submission_json [ev]"
    by (simp add: submission_json_def event_json_def annotation_json_def ev_def)
  have k: "list_all known_tags [ev]"
    by (simp add: known_tags_def ev_def translate_json_values)
  have r: "aggregate_spec rank ev =
      [JInt 1, JStr (ustr ''hello world''), JStr [], JStr (ustr ''hello''),
       JStr (ustr ''world''), JStr []]"
    by (simp add: ev_def aggregate_spec_def category_field_def texts_of_def
        translate_json_values key_distinct py_list_set_def)
  show ?thesis
    unfolding j
    using json_to_csv_valid[OF _ k, of "fs(name \<mapsto> JsonFile (submission_json [ev]))" name rank]
    by (simp add: r export_columns_def)
qed

subsection \<open>The export endpoint\<close>

lemma json_to_csv_writes:
  "json_to_csv rank fs name = (r, fs') \<Longrightarrow>
     fs' = fs \<or> (\<exists>df. fs' = fs(py_replace (ustr ''json'') (ustr ''csv'') name \<mapsto> to_csv df))"
  by (auto simp: json_to_csv_def split: option.splits sum.splits flow.splits)

lemma json_to_csv_keeps_xlsx:
  assumes "json_to_csv rank fs name = (r, fs')" and "fs' n = Some (XlsxFile h rows)"
  shows "fs n = Some (XlsxFile h rows)"
  using json_to_csv_writes[OF assms(1)] assms(2)
  by (auto simp: to_csv_def split: if_splits)

lemma export_json_cleaned:
  "cleaned (snd (export_json rank ins st req)) = cleaned st \<or>
   (\<exists>d v. py_get req (ustr ''dataset'') = Inr (JStr d) \<and> py_get req (ustr ''data'') = Inr v \<and>
      cleaned (snd (export_json rank ins st req)) =
        snd (json_to_csv rank
          ((cleaned st)(py_replace (ustr ''csv'') (ustr ''json'')
                          (py_replace (ustr ''xlsx'') (ustr ''json'') d) \<mapsto> JsonFile v))
          (py_replace (ustr ''csv'') (ustr ''json'')
                          (py_replace (ustr ''xlsx'') (ustr ''json'') d))))"
  by (auto simp: export_json_def Let_def split: sum.splits json.splits prod.splits
        result.splits option.splits)

text \<open>
  Claim C7, as amended. \<^verbatim>\<open>export_json\<close> emits no spreadsheet: it writes the JSON
  document and, through \<^verbatim>\<open>json_to_csv\<close>, the aggregated table in the delimited
  container only. A spreadsheet found in the folder after the export was there
  before, with the same content.
\<close>

theorem export_json_emits_no_spreadsheet:
  assumes "cleaned (snd (export_json rank ins st req)) n = Some (XlsxFile h rows)"
  shows "cleaned st n = Some (XlsxFile h rows)"
proof -
  from export_json_cleaned[of rank ins st req]
  show ?thesis
  proof
    assume "cleaned (snd (export_json rank ins st req)) = cleaned st"
    with assms show ?thesis by simp
  next
    assume "\<exists>d v. py_get req (ustr ''dataset'') = Inr (JStr d) \<and> py_get req (ustr ''data'') = Inr v \<and>
      cleaned (snd (export_json rank ins st req)) =
        snd (json_to_csv rank
          ((cleaned st)(py_replace (ustr ''csv'') (ustr ''json'')
                          (py_replace (ustr ''xlsx'') (ustr ''json'') d) \<mapsto> JsonFile v))
          (py_replace (ustr ''csv'') (ustr ''json'')
                          (py_replace (ustr ''xlsx'') (ustr ''json'') d)))"
    then obtain d v where c: "cleaned (snd (export_json rank ins st req)) =
        snd (json_to_csv rank
          ((cleaned st)(py_replace (ustr ''csv'') (ustr ''json'')
                          (py_replace (ustr ''xlsx'') (ustr ''json'') d) \<mapsto> JsonFile v))
          (py_replace (ustr ''csv'') (ustr ''json'')
                          (py_replace (ustr ''xlsx'') (ustr ''json'') d)))" by blast
    obtain r fs' where j: "json_to_csv rank
          ((cleaned st)(py_replace (ustr ''csv'') (ustr ''json'')
                          (py_replace (ustr ''xlsx'') (ustr ''json'') d) \<mapsto> JsonFile v))
          (py_replace (ustr ''csv'') (ustr ''json'')
                          (py_replace (ustr ''xlsx'') (ustr ''json'') d)) = (r, fs')"
      by (cases "json_to_csv rank
          ((cleaned st)(py_replace (ustr ''csv'') (ustr ''json'')
                          (py_replace (ustr ''xlsx'') (ustr ''json'') d) \<mapsto> JsonFile v))
          (py_replace (ustr ''csv'') (ustr ''json'')
                          (py_replace (ustr ''xlsx'') (ustr ''json'') d))") auto
    from assms c j have "fs' n = Some (XlsxFile h rows)" by simp
    from json_to_csv_keeps_xlsx[OF j this] show ?thesis
      by (auto split: if_splits)
  qed
qed

lemma export_json_valid:
  assumes "py_get req (ustr ''dataset'') = Inr (JStr d)"
    and "py_get req (ustr ''data'') = Inr (submission_json es)"
    and "d \<noteq> [] \<or> es \<noteq> []" and "list_all known_tags es"
    and "file_name (py_replace (ustr ''csv'') (ustr ''json'')
                      (py_replace (ustr ''xlsx'') (ustr ''json'') d))"
  shows "cleaned (snd (export_json rank ins st req)) =
      (cleaned st)
        (py_replace (ustr ''csv'') (ustr ''json'') (py_replace (ustr ''xlsx'') (ustr ''json'') d)
           \<mapsto> JsonFile (submission_json es),
         py_replace (ustr ''json'') (ustr ''csv'')
           (py_replace (ustr ''csv'') (ustr ''json'') (py_replace (ustr ''xlsx'') (ustr ''json'') d))
           \<mapsto> CsvFile export_columns (map (aggregate_spec rank) es))"
proof -
  from assms(1) have n: "req \<noteq> JNull" by auto
  have j: "json_to_csv rank
     ((cleaned st)(py_replace (ustr ''csv'') (ustr ''json'') (py_replace (ustr ''xlsx'') (ustr ''json'') d)
           \<mapsto> JsonFile (submission_json es)))
     (py_replace (ustr ''csv'') (ustr ''json'') (py_replace (ustr ''xlsx'') (ustr ''json'') d)) =
     (Returns None, (cleaned st)
        (py_replace (ustr ''csv'') (ustr ''json'') (py_replace (ustr ''xlsx'') (ustr ''json'') d)
           \<mapsto> JsonFile (submission_json es),
         py_replace (ustr ''json'') (ustr ''csv'')
           (py_replace (ustr ''csv'') (ustr ''json'') (py_replace (ustr ''xlsx'') (ustr ''json'') d))
           \<mapsto> CsvFile export_columns (map (aggregate_spec rank) es)))"
    by (rule json_to_csv_valid[OF _ assms(4)]) simp
  from assms(3) have g: "\<not> (JStr d \<in> set [JNull, JStr []] \<and>
      submission_json es \<in> set [JNull, JStr [], JObj [], JArr []])"
    by (auto simp: submission_json_def)
  show ?thesis
    unfolding export_json_def
    by (simp only: assms(1,2) sum.case n if_False if_not_P[OF g] json.case Let_def j
         assms(5) not_True_eq_False if_False)
       (simp split: prod.splits option.splits)
qed

lemma export_json_accepted:
  assumes "py_get req (ustr ''dataset'') = Inr (JStr d)"
    and "py_get req (ustr ''data'') = Inr (submission_json es)"
    and "d \<noteq> [] \<or> es \<noteq> []" and "list_all known_tags es"
    and "file_name (py_replace (ustr ''csv'') (ustr ''json'')
                      (py_replace (ustr ''xlsx'') (ustr ''json'') d))"
  shows "export_json rank accept_all st req =
     (Returns (Redirect (ustr ''export_data'')),
      st\<lparr>cleaned := (cleaned st)
        (py_replace (ustr ''csv'') (ustr ''json'') (py_replace (ustr ''xlsx'') (ustr ''json'') d)
           \<mapsto> JsonFile (submission_json es),
         py_replace (ustr ''json'') (ustr ''csv'')
           (py_replace (ustr ''csv'') (ustr ''json'') (py_replace (ustr ''xlsx'') (ustr ''json'') d))
           \<mapsto> CsvFile export_columns (map (aggregate_spec rank) es)),
         db := db st @ [req, req]\<rparr>)"
proof -
  from assms(1) have n: "req \<noteq> JNull" by auto
  have j: "json_to_csv rank
     ((cleaned st)(py_replace (ustr ''csv'') (ustr ''json'') (py_replace (ustr ''xlsx'') (ustr ''json'') d)
           \<mapsto> JsonFile (submission_json es)))
     (py_replace (ustr ''csv'') (ustr ''json'') (py_replace (ustr ''xlsx'') (ustr ''json'') d)) =
     (Returns None, (cleaned st)
        (py_replace (ustr ''csv'') (ustr ''json'') (py_replace (ustr ''xlsx'') (ustr ''json'') d)
           \<mapsto> JsonFile (submission_json es),
         py_replace (ustr ''json'') (ustr ''csv'')
           (py_replace (ustr ''csv'') (ustr ''json'') (py_replace (ustr ''xlsx'') (ustr ''json'') d))
           \<mapsto> CsvFile export_columns (map (aggregate_spec rank) es)))"
    by (rule json_to_csv_valid[OF _ assms(4)]) simp
  from assms(3) have g: "\<not> (JStr d \<in> set [JNull, JStr []] \<and>
      submission_json es \<in> set [JNull, JStr [], JObj [], JArr []])"
    by (auto simp: submission_json_def)
  show ?thesis
    unfolding export_json_def
    by (simp only: assms(1,2) sum.case n if_False if_not_P[OF g] json.case Let_def j
         assms(5) not_True_eq_False if_False)
       (simp add: save_to_db_def accept_all_def)
qed

lemma hello_event_typed:
  "hello_event = event_json \<lparr>page = 1, ev_text = ustr ''hello world'',
     annotations = [\<lparr>tag = ustr ''POZITIF'', ann_text = ustr ''hello''\<rparr>,
                    \<lparr>tag = ustr ''NEGATIF'', ann_text = ustr ''world''\<rparr>]\<rparr>"
  by (simp add: hello_event_def event_json_def annotation_json_def)

lemma hello_event_known:
  "known_tags \<lparr>page = 1, ev_text = ustr ''hello world'',
     annotations = [\<lparr>tag = ustr ''POZITIF'', ann_text = ustr ''hello''\<rparr>,
                    \<lparr>tag = ustr ''NEGATIF'', ann_text = ustr ''world''\<rparr>]\<rparr>"
  by (simp add: known_tags_def translate_json_values)

lemma hello_event_row:
  "aggregate_spec rank \<lparr>page = 1, ev_text = ustr ''hello world'',
     annotations = [\<lparr>tag = ustr ''POZITIF'', ann_text = ustr ''hello''\<rparr>,
                    \<lparr>tag = ustr ''NEGATIF'', ann_text = ustr ''world''\<rparr>]\<rparr> = hello_row"
  by (simp add: aggregate_spec_def category_field_def texts_of_def
        translate_json_values key_distinct py_list_set_def hello_row_def)

lemma export_hello:
  assumes "py_get req (ustr ''dataset'') = Inr (JStr d)"
    and "py_get req (ustr ''data'') = Inr (JArr [hello_event])"
    and "file_name (py_replace (ustr ''csv'') (ustr ''json'')
                      (py_replace (ustr ''xlsx'') (ustr ''json'') d))"
  shows "export_json rank accept_all st req =
     (Returns (Redirect (ustr ''export_data'')),
      st\<lparr>cleaned := (cleaned st)
        (py_replace (ustr ''csv'') (ustr ''json'') (py_replace (ustr ''xlsx'') (ustr ''json'') d)
           \<mapsto> JsonFile (JArr [hello_event]),
         py_replace (ustr ''json'') (ustr ''csv'')
           (py_replace (ustr ''csv'') (ustr ''json'') (py_replace (ustr ''xlsx'') (ustr ''json'') d))
           \<mapsto> CsvFile export_columns [hello_row]),
         db := db st @ [req, req]\<rparr>)"
  using export_json_accepted[of req d "[\<lparr>page = 1, ev_text = ustr ''hello world'',
     annotations = [\<lparr>tag = ustr ''POZITIF'', ann_text = ustr ''hello''\<rparr>,
                    \<lparr>tag = ustr ''NEGATIF'', ann_text = ustr ''world''\<rparr>]\<rparr>]" rank st] assms
  by (simp add: submission_json_def hello_event_typed[symmetric] hello_event_known hello_event_row)

text \<open>
  Claim C5. The file names are derived with \<^verbatim>\<open>str.replace\<close>, which rewrites
  every occurrence of the extension's letters. For the dataset
  \<open>xlsx_report.csv\<close> the submission is stored as \<open>json_report.json\<close> and the
  table as \<open>csv_report.csv\<close>; nothing is written under \<open>xlsx_report.csv\<close>.
\<close>

theorem interior_substring_renamed:
  "export_json entry_order accept_all empty_state report_request =
     (Returns (Redirect (ustr ''export_data'')),
      \<lparr>uploads = Map.empty,
       cleaned = Map.empty
         (ustr ''json_report.json'' \<mapsto> JsonFile (JArr [hello_event]),
          ustr ''csv_report.csv'' \<mapsto> CsvFile export_columns [hello_row]),
       db = [report_request, report_request]\<rparr>)
   \<and> cleaned (snd (export_json entry_order accept_all empty_state report_request))
         (ustr ''xlsx_report.csv'') = None"
proof -
  have n: "py_replace (ustr ''csv'') (ustr ''json'')
             (py_replace (ustr ''xlsx'') (ustr ''json'') (ustr ''xlsx_report.csv'')) =
           ustr ''json_report.json''"
    "py_replace (ustr ''json'') (ustr ''csv'') (ustr ''json_report.json'') = ustr ''csv_report.csv''"
    by (simp_all add: ustr_def)
  have f: "file_name (ustr ''json_report.json'')"
    by (simp add: file_name_def utf8_length_def ustr_def)
  have e: "export_json entry_order accept_all empty_state report_request =
     (Returns (Redirect (ustr ''export_data'')),
      \<lparr>uploads = Map.empty,
       cleaned = Map.empty
         (ustr ''json_report.json'' \<mapsto> JsonFile (JArr [hello_event]),
          ustr ''csv_report.csv'' \<mapsto> CsvFile export_columns [hello_row]),
       db = [report_request, report_request]\<rparr>)"
    using export_hello[of report_request "ustr ''xlsx_report.csv''" entry_order empty_state]
    by (simp add: report_request_def[symmetric] n f empty_state_def)
       (simp add: report_request_def key_distinct ustr_def)
  show ?thesis unfolding e by (simp add: ustr_def)
qed

text \<open>
  Claim C7 as stated fails: after a successful export of the dataset \<open>data.csv\<close>
  into empty folders, the folder of cleaned data holds \<open>data.json\<close> and
  \<open>data.csv\<close> and no \<open>data.xlsx\<close>.
\<close>

theorem export_emits_no_spreadsheet_counterexample:
  "export_json entry_order accept_all empty_state data_request =
     (Returns (Redirect (ustr ''export_data'')),
      \<lparr>uploads = Map.empty,
       cleaned = Map.empty
         (ustr ''data.json'' \<mapsto> JsonFile (JArr [hello_event]),
          ustr ''data.csv'' \<mapsto> CsvFile export_columns [hello_row]),
       db = [data_request, data_request]\<rparr>)
   \<and> cleaned (snd (export_json entry_order accept_all empty_state data_request))
         (ustr ''data.xlsx'') = None"
proof -
  have n: "py_replace (ustr ''csv'') (ustr ''json'')
             (py_replace (ustr ''xlsx'') (ustr ''json'') (ustr ''data.csv'')) = ustr ''data.json''"
    "py_replace (ustr ''json'') (ustr ''csv'') (ustr ''data.json'') = ustr ''data.csv''"
    by (simp_all add: ustr_def)
  have f: "file_name (ustr ''data.json'')"
    by (simp add: file_name_def utf8_length_def ustr_def)
  have e: "export_json entry_order accept_all empty_state data_request =
     (Returns (Redirect (ustr ''export_data'')),
      \<lparr>uploads = Map.empty,
       cleaned = Map.empty
         (ustr ''data.json'' \<mapsto> JsonFile (JArr [hello_event]),
          ustr ''data.csv'' \<mapsto> CsvFile export_columns [hello_row]),
       db = [data_request, data_request]\<rparr>)"
    using export_hello[of data_request "ustr ''data.csv''" entry_order empty_state]
    by (simp add: data_request_def[symmetric] n f empty_state_def)
       (simp add: data_request_def key_distinct ustr_def)
  show ?thesis unfolding e by (simp add: ustr_def)
qed

theorem export_json_emits_no_spreadsheet_witness:
  "cleaned (snd (export_json entry_order accept_all sheet_state data_request)) (ustr ''data.xlsx'')
     = Some (XlsxFile [ustr ''id'', ustr ''text''] [])
   \<and> cleaned sheet_state (ustr ''data.xlsx'') = Some (XlsxFile [ustr ''id'', ustr ''text''] [])"
proof -
  have n: "py_replace (ustr ''csv'') (ustr ''json'')
             (py_replace (ustr ''xlsx'') (ustr ''json'') (ustr ''data.csv'')) = ustr ''data.json''"
    "py_replace (ustr ''json'') (ustr ''csv'') (ustr ''data.json'') = ustr ''data.csv''"
    by (simp_all add: ustr_def)
  have d: "py_get data_request (ustr ''dataset'') = Inr (JStr (ustr ''data.csv''))"
    "py_get data_request (ustr ''data'') = Inr (JArr [hello_event])"
    by (simp_all add: data_request_def ustr_def)
  have f: "file_name (py_replace (ustr ''csv'') (ustr ''json'')
                        (py_replace (ustr ''xlsx'') (ustr ''json'') (ustr ''data.csv'')))"
    unfolding n by (simp add: file_name_def utf8_length_def ustr_def)
  have "cleaned (snd (export_json entry_order accept_all sheet_state data_request))
          (ustr ''data.xlsx'') = Some (XlsxFile [ustr ''id'', ustr ''text''] [])"
    by (simp add: export_hello[OF d f] n) (simp add: sheet_state_def ustr_def)
  from this export_json_emits_no_spreadsheet[OF this] show ?thesis by simp
qed




subsection \<open>The normaliser on settled texts\<close>

lemma spaced_words_plain: "spaced_words s \<Longrightarrow> plain_chars s"
  by (induction s) (auto simp: plain_chars_def split: if_splits)

lemma plain_chars_Cons: "plain_chars (c # cs) = ((lower_letter c \<or> c = 32) \<and> plain_chars cs)"
  by (simp add: plain_chars_def)

lemma plain_chars_drop: "plain_chars s \<Longrightarrow> plain_chars (drop n s)"
  unfolding plain_chars_def list_all_iff using in_set_dropD by fast

lemma turkish_plain: "plain_chars s \<Longrightarrow> turkish_characters s = s"
  by (induction s)
     (auto simp: plain_chars_def turkish_characters_def turkish_table_def lower_letter_def)

lemma lower_plain: "plain_chars s \<Longrightarrow> lower_from U pre s = s"
  by (induction s arbitrary: pre) (auto simp: plain_chars_def lower_letter_def)

lemma letter_classes:
  "lower_letter c \<Longrightarrow> \<not> is_space U c"
  "lower_letter c \<Longrightarrow> is_word U c"
  "lower_letter c \<Longrightarrow> \<not> is_digit U c"
  "lower_letter c \<Longrightarrow> ascii_alnum c"
  "lower_letter c \<Longrightarrow> c \<noteq> 35 \<and> c \<noteq> 64 \<and> c \<noteq> 32 \<and> c \<noteq> 58"
  by (auto simp: lower_letter_def is_space_def is_word_def is_digit_def ascii_alnum_def)

lemma space_classes:
  "is_space U 32" "\<not> is_word U 32" "\<not> is_digit U 32"
  by (simp_all add: is_space_def is_word_def is_digit_def ascii_alnum_def)

lemma py_join_Cons: "ws \<noteq> [] \<Longrightarrow> py_join sep (w # ws) = w @ sep @ py_join sep ws"
  by (cases ws) simp_all

lemma py_join_Nil_iff: "list_all (\<lambda>w. w \<noteq> []) ws \<Longrightarrow> (py_join sep ws = []) = (ws = [])"
  by (induction sep ws rule: py_join.induct) simp_all

lemma split_join:
  assumes "spaced_words s" and "list_all lower_letter w" and "w \<noteq> [] \<or> \<not> prefix [32] s"
  shows "py_join [32] (filter (\<lambda>word. 35 \<notin> set word \<and> 64 \<notin> set word) (split_from U w s)) = w @ s"
  using assms
proof (induction s arbitrary: w)
  case Nil
  then show ?case by (auto simp: list_all_iff dest: letter_classes(5))
next
  case (Cons c cs)
  show ?case
  proof (cases "c = 32")
    case True
    with Cons.prems have w: "w \<noteq> []" and cs: "cs \<noteq> []" "hd cs \<noteq> 32" "spaced_words cs"
      by auto
    from cs have np: "\<not> prefix [32] cs" by (cases cs) auto
    have ih: "py_join [32] (filter (\<lambda>word. 35 \<notin> set word \<and> 64 \<notin> set word) (split_from U [] cs)) = cs"
      using Cons.IH[of "[]"] cs np by simp
    with cs have ne: "filter (\<lambda>word. 35 \<notin> set word \<and> 64 \<notin> set word) (split_from U [] cs) \<noteq> []"
      by auto
    have ok: "35 \<notin> set w \<and> 64 \<notin> set w"
      using Cons.prems(2) by (auto simp: list_all_iff dest: letter_classes(5))
    show ?thesis
      using True w ok by (simp add: space_classes py_join_Cons[OF ne] ih)
  next
    case False
    with Cons.prems have l: "lower_letter c" and cs: "spaced_words cs" by auto
    have "py_join [32] (filter (\<lambda>word. 35 \<notin> set word \<and> 64 \<notin> set word) (split_from U (w @ [c]) cs))
        = (w @ [c]) @ cs"
      using Cons.IH[of "w @ [c]"] cs l Cons.prems(2) by simp
    then show ?thesis using l by (simp add: letter_classes)
  qed
qed

lemma noise_none:
  assumes "plain_chars s" and "\<not> (prefix (ustr ''http'') s \<and> 4 < length s)"
    and "start \<longrightarrow> \<not> prefix (ustr ''rt'') s"
  shows "noise_pattern U start s = None"
proof -
  have m: "mention_marker s = None"
    using assms(1) by (cases s) (auto simp: mention_marker_def ustr_def plain_chars_def lower_letter_def)
  have n: "noise_char s = None"
    using assms(1) by (cases s) (auto simp: noise_char_def plain_chars_def dest: letter_classes(4))
  have "\<not> prefix (ustr ''://'') (drop k s)" for k
    using plain_chars_drop[OF assms(1), of k]
    by (cases "drop k s") (auto simp: ustr_def plain_chars_def lower_letter_def)
  then have u: "url_like U s = None" by (simp add: url_like_def Let_def)
  have r: "leading_rt start s = None" using assms(3) by (simp add: leading_rt_def)
  have h: "http_char s = None" using assms(2) by (auto simp: http_char_def)
  show ?thesis by (simp add: noise_pattern_def m n u r h)
qed

lemma noise_fixed:
  "plain_chars s \<Longrightarrow> \<not> has_http s \<Longrightarrow> (start \<longrightarrow> \<not> prefix (ustr ''rt'') s) \<Longrightarrow>
   re_sub (noise_pattern U) [] start s = s"
proof (induction s arbitrary: start)
  case Nil
  then show ?case by simp
next
  case (Cons c cs)
  from Cons.prems(2) have h: "\<not> (prefix (ustr ''http'') (c # cs) \<and> 4 < length (c # cs))"
    and t: "\<not> has_http cs" by auto
  have "noise_pattern U start (c # cs) = None"
    by (rule noise_none[OF Cons.prems(1) h Cons.prems(3)])
  moreover have "re_sub (noise_pattern U) [] False cs = cs"
    using Cons.IH[of False] Cons.prems(1) t by (simp add: plain_chars_Cons)
  ultimately show ?case by simp
qed

lemma nonword_fixed:
  "spaced_words s \<Longrightarrow> re_sub (nonword_pattern U) [32] start s = s"
proof (induction s arbitrary: start)
  case Nil
  then show ?case by simp
next
  case (Cons c cs)
  show ?case
  proof (cases "c = 32")
    case True
    with Cons.prems obtain d ds where cs: "cs = d # ds" "lower_letter d" "spaced_words cs"
      by (cases cs) (auto split: if_splits)
    have "nonword_pattern U start (c # cs) = Some (Suc 0)"
      using True cs by (simp add: nonword_pattern_def space_classes letter_classes Let_def)
    then show ?thesis using True Cons.IH[OF cs(3), of False] by simp
  next
    case False
    with Cons.prems have l: "lower_letter c" and cs: "spaced_words cs" by auto
    have "nonword_pattern U start (c # cs) = None"
      using l by (simp add: nonword_pattern_def letter_classes)
    then show ?thesis using Cons.IH[OF cs, of False] by simp
  qed
qed

lemma digits_fixed:
  "plain_chars s \<Longrightarrow> re_sub (digits_pattern U) [] start s = s"
proof (induction s arbitrary: start)
  case Nil
  then show ?case by simp
next
  case (Cons c cs)
  then have "\<not> is_digit U c" by (auto simp: plain_chars_Cons letter_classes space_classes)
  then have "digits_pattern U start (c # cs) = None" by (simp add: digits_pattern_def)
  then show ?case using Cons by (simp add: plain_chars_Cons)
qed

lemma settled_fixed:
  assumes "settled y"
  shows "normalize_text U y = y"
proof -
  from assms have sw: "spaced_words y" and np: "\<not> prefix [32] y"
    and rt: "\<not> prefix (ustr ''rt'') y" and ht: "\<not> has_http y"
    by (simp_all add: settled_def ustr_def)
  note pc = spaced_words_plain[OF sw]
  have j: "py_join [32] (filter (\<lambda>word. 35 \<notin> set word \<and> 64 \<notin> set word) (split_from U [] y)) = y"
    using split_join[OF sw, of "[]" U] np by simp
  have sp: "ustr '' '' = [32]" by (simp add: ustr_def)
  show ?thesis
    by (simp add: normalize_text_def clean_text_def turkish_plain[OF pc] py_lower_def
        lower_plain[OF pc] py_split_def sp j noise_fixed[OF pc ht] rt nonword_fixed[OF sw]
        digits_fixed[OF pc] Let_def)
qed

text \<open>
  Claim C2, as amended. A second normalisation changes nothing when the first one
  gave a settled text: lower-case ASCII words with single spaces between them, no
  space at either end, no \<open>rt\<close> at the start and no \<open>http\<close> followed by a
  character. This holds for all Unicode tables.
\<close>

theorem normalize_idempotent_when_settled:
  "settled (normalize_text U x) \<Longrightarrow> normalize_text U (normalize_text U x) = normalize_text U x"
  by (rule settled_fixed)

theorem normalize_idempotent_when_settled_witness:
  "settled (normalize_text plain_tables ([199] @ ustr ''ok G'' @ [220] @ ustr ''ZEL!''))
   \<and> normalize_text plain_tables (normalize_text plain_tables ([199] @ ustr ''ok G'' @ [220] @ ustr ''ZEL!''))
       = normalize_text plain_tables ([199] @ ustr ''ok G'' @ [220] @ ustr ''ZEL!'')
   \<and> normalize_text plain_tables ([199] @ ustr ''ok G'' @ [220] @ ustr ''ZEL!'') = ustr ''cok guzel''"
proof -
  have v: "normalize_text plain_tables ([199] @ ustr ''ok G'' @ [220] @ ustr ''ZEL!'') = ustr ''cok guzel''"
    by code_simp
  have s: "settled (normalize_text plain_tables ([199] @ ustr ''ok G'' @ [220] @ ustr ''ZEL!''))"
    unfolding v by code_simp
  from s normalize_idempotent_when_settled[OF s] v show ?thesis by blast
qed

text \<open>
  Claim C2 as stated fails. The digits are removed after the runs of white space have
  been collapsed: \<open>a 1 b\<close> becomes \<open>a\<close>, two spaces, \<open>b\<close>, and a second
  normalisation joins the words with one space.
\<close>

theorem normalize_not_idempotent:
  "normalize_text plain_tables (ustr ''a 1 b'') = ustr ''a  b''
   \<and> normalize_text plain_tables (normalize_text plain_tables (ustr ''a 1 b'')) = ustr ''a b''
   \<and> normalize_text plain_tables (normalize_text plain_tables (ustr ''a 1 b''))
       \<noteq> normalize_text plain_tables (ustr ''a 1 b'')"
  by code_simp

subsection \<open>Cleaning and extraction\<close>

text \<open>
  Claim C4. \<^verbatim>\<open>data_cleaner\<close> tests the file name for \<open>csv\<close> and for \<open>xslx\<close>. The
  name \<open>data.xlsx\<close> contains neither: with a well-formed spreadsheet of that name
  in the upload folder no file is read, and the cleaning ends with the error of a
  missing data frame and writes nothing.
\<close>

theorem spreadsheet_upload_not_cleaned:
  "uploads sheet_upload (ustr ''data.xlsx'') =
     Some (XlsxFile [ustr ''id'', ustr ''text''] [[JInt 1, JStr (ustr ''Merhaba'')]])
   \<and> data_cleaner U cell_text sheet_upload (ustr ''data.xlsx'') =
       (IsErr (ustr ''Verilen dataset temizlenirken bir hata meyadana geldi.'')
          (FileNotFoundError (ustr ''DataFrame is not implemented via files.'')), sheet_upload)"
proof -
  have "\<not> py_in (ustr ''csv'') (ustr ''data.xlsx'')" "\<not> py_in (ustr ''xslx'') (ustr ''data.xlsx'')"
    by (simp_all add: ustr_def)
  then show ?thesis
    by (simp add: data_cleaner_def data_cleaner_try_def) (simp add: sheet_upload_def)
qed









subsection \<open>Extraction from a cleaned dataset\<close>

text \<open>
  Claim C6. The dataset \<open>xlsx_data.csv\<close>, with one row of a valid \<open>id\<close> and
  \<open>text\<close>, is cleaned and written. The extraction then reads the cleaned file as a
  delimited file and, since its name also contains \<open>xlsx\<close>, once more as a
  spreadsheet, which the parser refuses: no ids and texts come back, whatever the
  coercions do with columns they are not defined on.
\<close>

theorem round_trip_fails_for_xlsx_in_name:
  "fst (data_cleaner plain_tables sample_text xlsx_named_upload (ustr ''xlsx_data.csv'')) =
     Redirect (ustr ''clean_data'')
   \<and> cleaned (snd (data_cleaner plain_tables sample_text xlsx_named_upload
                      (ustr ''xlsx_data.csv''))) (ustr ''xlsx_data.csv'') =
       Some (CsvFile [ustr ''id'', ustr ''text'', ustr ''clean_text'']
               [[JInt 1, JStr (ustr ''Merhaba''), JStr (ustr ''merhaba'')]])
   \<and> extract_text_and_ids_from_dataset other_int64 other_string
        (cleaned (snd (data_cleaner plain_tables sample_text xlsx_named_upload
                         (ustr ''xlsx_data.csv''))))
        (ustr ''xlsx_data.csv'') = Inl DecodeError"
proof -
  have n: "py_in (ustr ''csv'') (ustr ''xlsx_data.csv'')" "py_in (ustr ''xlsx'') (ustr ''xlsx_data.csv'')"
    "\<not> py_in (ustr ''xslx'') (ustr ''xlsx_data.csv'')"
    "py_replace (ustr ''csv'') (ustr ''xlsx'') (ustr ''xlsx_data.csv'') = ustr ''xlsx_data.xlsx''"
    "ustr ''xlsx_data.xlsx'' \<noteq> ustr ''xlsx_data.csv''"
    by (simp_all add: ustr_def)
  have t: "clean_text plain_tables (turkish_characters (ustr ''Merhaba'')) = ustr ''merhaba''"
    by code_simp
  have k: "ustr ''clean_text'' \<noteq> ustr ''id''" "ustr ''clean_text'' \<noteq> ustr ''text''"
    by (simp_all add: ustr_def)
  have d: "data_cleaner plain_tables sample_text xlsx_named_upload (ustr ''xlsx_data.csv'') =
     (Redirect (ustr ''clean_data''),
      xlsx_named_upload\<lparr>cleaned := Map.empty
        (ustr ''xlsx_data.csv'' \<mapsto>
           CsvFile [ustr ''id'', ustr ''text'', ustr ''clean_text'']
             [[JInt 1, JStr (ustr ''Merhaba''), JStr (ustr ''merhaba'')]],
         ustr ''xlsx_data.xlsx'' \<mapsto>
           XlsxFile [ustr ''id'', ustr ''text'', ustr ''clean_text'']
             [[JStr [], JStr (ustr ''Merhaba''), JStr (ustr ''merhaba'')]])\<rparr>)"
    using n by (simp add: data_cleaner_def data_cleaner_try_def read_csv_def csv_to_xlsx_def
        xlsx_named_upload_def cell_def set_column_def key_distinct Let_def t k)
  show ?thesis
    unfolding d using n
    by (simp add: extract_text_and_ids_from_dataset_def load_dataset_def usecols_def read_csv_def
        read_excel_def)
qed

end
